theory Spec2Isabelle
  imports Complex_Main
begin

section \<open>Python values shared by all modules\<close>

text \<open>
  The exceptions the modelled code can raise. \<open>OSError\<close> stands for a failed
  file-system operation (disk full, permissions); \<open>ProcessKilled\<close> is not a Python
  exception: it marks a run that was interrupted at process level, which no
  \<open>except Exception\<close> clause sees.
\<close>

datatype py_error =
    FileNotFoundError
  | ValueError
  | IndexError
  | KeyError
  | ZeroDivisionError
  | OSError
  | ProcessKilled

text \<open>
  A floating-point number is the real number it denotes, or one of the three special
  values. Comparison of floats is exact, so \<open>flt\<close> is Python's \<open><\<close>; arithmetic rounds,
  and every rounding operation is a parameter of the function that uses it.
\<close>

datatype pyfloat = Fin real | PInf | NInf | NaN

fun flt :: "pyfloat \<Rightarrow> pyfloat \<Rightarrow> bool" where
  "flt NaN _ = False"
| "flt _ NaN = False"
| "flt (Fin a) (Fin b) = (a < b)"
| "flt (Fin a) PInf = True"
| "flt (Fin a) NInf = False"
| "flt PInf _ = False"
| "flt NInf (Fin b) = True"
| "flt NInf PInf = True"
| "flt NInf NInf = False"

fun isfinite :: "pyfloat \<Rightarrow> bool" where
  "isfinite (Fin a) = True"
| "isfinite _ = False"

text \<open>A raw value \<open>\<ge> 0\<close> that is a number (not an infinity, not NaN).\<close>

fun nonneg_number :: "pyfloat \<Rightarrow> bool" where
  "nonneg_number (Fin a) = (0 \<le> a)"
| "nonneg_number _ = False"

text \<open>Python's \<open><=\<close> on floats: false as soon as one side is NaN.\<close>

definition fle :: "pyfloat \<Rightarrow> pyfloat \<Rightarrow> bool" where
  "fle a b = (a \<noteq> NaN \<and> b \<noteq> NaN \<and> \<not> flt b a)"

text \<open>
  \<open>np.log1p\<close> on one element: \<open>log(1 + x)\<close>, rounded to the array's precision by
  \<open>rnd\<close>; NaN below \<open>-1\<close>, \<open>-inf\<close> at \<open>-1\<close>, \<open>inf\<close> at \<open>inf\<close>.
\<close>

fun log1p :: "(real \<Rightarrow> real) \<Rightarrow> pyfloat \<Rightarrow> pyfloat" where
  "log1p rnd (Fin a) =
     (if a < - 1 then NaN else if a = - 1 then NInf else Fin (rnd (ln (1 + a))))"
| "log1p rnd PInf = PInf"
| "log1p rnd NInf = NaN"
| "log1p rnd NaN = NaN"

text \<open>
  A 2D map is a list of rows; a whole-dataset array of shape \<open>(n, H, W)\<close> is a list
  of maps, and a tensor of shape \<open>(1, H, W)\<close> is a list holding one map.
\<close>

type_synonym fmap = "pyfloat list list"
type_synonym tensor = "fmap list"

text \<open>\<open>arr.astype(np.float32)\<close>: the element conversion \<open>f32\<close> applied everywhere.\<close>

definition astype :: "(pyfloat \<Rightarrow> pyfloat) \<Rightarrow> fmap list \<Rightarrow> fmap list" where
  "astype f32 arr = map (map (map f32)) arr"

definition astype_map :: "(pyfloat \<Rightarrow> pyfloat) \<Rightarrow> fmap \<Rightarrow> fmap" where
  "astype_map f32 m = map (map f32) m"

text \<open>
  Indexing the leading axis, \<open>arr[idx]\<close>: a negative index counts from the end, an index
  out of range raises.
\<close>

definition getidx :: "'a list \<Rightarrow> int \<Rightarrow> py_error + 'a" where
  "getidx xs i =
     (if 0 \<le> i \<and> i < int (length xs) then Inr (xs ! nat i)
      else if i < 0 \<and> - int (length xs) \<le> i then Inr (xs ! nat (int (length xs) + i))
      else Inl IndexError)"

text \<open>
  \<open>os.path.join(a, b)\<close> for two components: an absolute \<open>b\<close> replaces \<open>a\<close>; otherwise
  a separator is inserted unless \<open>a\<close> is empty or already ends with one.
\<close>

definition path_join :: "string \<Rightarrow> string \<Rightarrow> string" where
  "path_join a b =
     (if b \<noteq> [] \<and> hd b = CHR ''/'' then b
      else if a = [] \<or> last a = CHR ''/'' then a @ b
      else a @ ''/'' @ b)"

text \<open>
  The four lines both datasets end \<open>__getitem__\<close> with: \<open>np.log1p\<close> on each map (a new
  array each), then \<open>torch.from_numpy(...).unsqueeze(0)\<close>.
\<close>

definition log1p_map :: "(real \<Rightarrow> real) \<Rightarrow> fmap \<Rightarrow> fmap" where
  "log1p_map rnd m = map (map (log1p rnd)) m"

definition unsqueeze0 :: "fmap \<Rightarrow> tensor" where
  "unsqueeze0 m = [m]"

definition normalize_pair :: "(real \<Rightarrow> real) \<Rightarrow> fmap \<Rightarrow> fmap \<Rightarrow> tensor \<times> tensor" where
  "normalize_pair rnd input_map target_map =
     (let input_map' = log1p_map rnd input_map;
          target_map' = log1p_map rnd target_map;
          input_tensor = unsqueeze0 input_map';
          target_tensor = unsqueeze0 target_map'
      in (input_tensor, target_tensor))"

section \<open>scripts/dataset.py: the flat-array dataset\<close>

text \<open>The \<open>.npy\<close> files of the data directory: a path that exists holds an array.\<close>

type_synonym npy_fs = "string \<rightharpoonup> fmap list"

record CAMELSDataset =
  root_dir :: string
  input_maps :: "fmap list"
  target_maps :: "fmap list"

definition npy_input_filename :: "string \<Rightarrow> string \<Rightarrow> string" where
  "npy_input_filename suite dataset_type =
     ''Maps_Mcdm_'' @ suite @ ''_'' @ dataset_type @ ''_z=0.00.npy''"

definition npy_target_filename :: "string \<Rightarrow> string \<Rightarrow> string" where
  "npy_target_filename suite dataset_type =
     ''Maps_Mtot_'' @ suite @ ''_'' @ dataset_type @ ''_z=0.00.npy''"

definition CAMELSDataset_init ::
  "(pyfloat \<Rightarrow> pyfloat) \<Rightarrow> npy_fs \<Rightarrow> string \<Rightarrow> string \<Rightarrow> string \<Rightarrow> py_error + CAMELSDataset" where
  "CAMELSDataset_init f32 fs rootdir suite dataset_type =
     (let input_path = path_join rootdir (npy_input_filename suite dataset_type);
          target_path = path_join rootdir (npy_target_filename suite dataset_type)
      in case (fs input_path, fs target_path) of
           (Some a, Some b) \<Rightarrow>
             (let im = astype f32 a; tm = astype f32 b
              in if length im \<noteq> length tm then Inl ValueError
                 else Inr \<lparr>root_dir = rootdir, input_maps = im, target_maps = tm\<rparr>)
         | _ \<Rightarrow> Inl FileNotFoundError)"

definition CAMELSDataset_len :: "CAMELSDataset \<Rightarrow> nat" where
  "CAMELSDataset_len self = length (input_maps self)"

text \<open>
  \<open>__getitem__\<close>, with the object passed through: the second component is the dataset
  after the call.
\<close>

definition CAMELSDataset_getitem ::
  "(real \<Rightarrow> real) \<Rightarrow> CAMELSDataset \<Rightarrow> int \<Rightarrow> (py_error + tensor \<times> tensor) \<times> CAMELSDataset" where
  "CAMELSDataset_getitem rnd self idx =
     (case getidx (input_maps self) idx of
        Inl e \<Rightarrow> (Inl e, self)
      | Inr input_map \<Rightarrow>
          (case getidx (target_maps self) idx of
             Inl e \<Rightarrow> (Inl e, self)
           | Inr target_map \<Rightarrow> (Inr (normalize_pair rnd input_map target_map), self)))"

section \<open>scripts/dataset\_hdf5.py: the HDF5 dataset\<close>

text \<open>
  An HDF5 file maps dataset names to arrays; the data directory maps the paths that
  exist to files. \<open>redshift\<close> is carried as the text \<open>{redshift:.2f}\<close> formats it to.
  The attribute \<open>map_shape\<close>, which is only printed, is left out.
\<close>

type_synonym h5_file = "string \<rightharpoonup> fmap list"
type_synonym h5_fs = "string \<rightharpoonup> h5_file"

record CAMELSDatasetHDF5 =
  h5_root_dir :: string
  h5_suite :: string
  h5_dataset_type :: string
  h5_redshift :: string
  cache_in_memory :: bool
  input_path :: string
  target_path :: string
  n_simulations :: nat
  input_cache :: "fmap list option"
  target_cache :: "fmap list option"

definition h5_input_filename :: "string \<Rightarrow> string \<Rightarrow> string \<Rightarrow> string" where
  "h5_input_filename suite dataset_type redshift =
     ''Maps_Mcdm_'' @ suite @ ''_'' @ dataset_type @ ''_z='' @ redshift @ ''.hdf5''"

definition h5_target_filename :: "string \<Rightarrow> string \<Rightarrow> string \<Rightarrow> string" where
  "h5_target_filename suite dataset_type redshift =
     ''Maps_Mtot_'' @ suite @ ''_'' @ dataset_type @ ''_z='' @ redshift @ ''.hdf5''"

text \<open>\<open>with h5py.File(path, 'r') as f: f[name]\<close>.\<close>

definition h5_open_dataset :: "h5_fs \<Rightarrow> string \<Rightarrow> string \<Rightarrow> py_error + fmap list" where
  "h5_open_dataset fs path name =
     (case fs path of
        None \<Rightarrow> Inl FileNotFoundError
      | Some f \<Rightarrow> (case f name of None \<Rightarrow> Inl KeyError | Some d \<Rightarrow> Inr d))"

definition CAMELSDatasetHDF5_init ::
  "(pyfloat \<Rightarrow> pyfloat) \<Rightarrow> h5_fs \<Rightarrow> string \<Rightarrow> string \<Rightarrow> string \<Rightarrow> string \<Rightarrow> bool
     \<Rightarrow> py_error + CAMELSDatasetHDF5" where
  "CAMELSDatasetHDF5_init f32 fs rootdir suite dataset_type redshift cache =
     (let ipath = path_join rootdir (h5_input_filename suite dataset_type redshift);
          tpath = path_join rootdir (h5_target_filename suite dataset_type redshift)
      in if fs ipath = None then Inl FileNotFoundError
         else if fs tpath = None then Inl FileNotFoundError
         else case h5_open_dataset fs ipath ''Maps_Mcdm'' of
                Inl e \<Rightarrow> Inl e
              | Inr d \<Rightarrow>
                  (let self = \<lparr>h5_root_dir = rootdir, h5_suite = suite,
                                h5_dataset_type = dataset_type, h5_redshift = redshift,
                                cache_in_memory = cache, input_path = ipath,
                                target_path = tpath, n_simulations = length d,
                                input_cache = None, target_cache = None\<rparr>
                   in if cache then
                        (case h5_open_dataset fs ipath ''Maps_Mcdm'' of
                           Inl e \<Rightarrow> Inl e
                         | Inr a \<Rightarrow>
                             (case h5_open_dataset fs tpath ''Maps_Mtot'' of
                                Inl e \<Rightarrow> Inl e
                              | Inr b \<Rightarrow>
                                  Inr (self\<lparr>input_cache := Some (astype f32 a),
                                            target_cache := Some (astype f32 b)\<rparr>)))
                      else Inr self))"

definition CAMELSDatasetHDF5_len :: "CAMELSDatasetHDF5 \<Rightarrow> nat" where
  "CAMELSDatasetHDF5_len self = n_simulations self"

text \<open>
  \<open>__getitem__\<close>: the cached branch indexes the arrays in memory; the other branch
  opens both files again, so it reads the directory as it is at the time of the call.
  A cache attribute that is \<open>None\<close> cannot be indexed (\<open>TypeError\<close> in Python; the
  constructor never leaves it so when \<open>cache_in_memory\<close> is set), modelled as
  \<open>ValueError\<close>.
\<close>

definition CAMELSDatasetHDF5_getitem ::
  "(pyfloat \<Rightarrow> pyfloat) \<Rightarrow> (real \<Rightarrow> real) \<Rightarrow> h5_fs \<Rightarrow> CAMELSDatasetHDF5 \<Rightarrow> int
     \<Rightarrow> (py_error + tensor \<times> tensor) \<times> CAMELSDatasetHDF5" where
  "CAMELSDatasetHDF5_getitem f32 rnd fs self idx =
     (let maps =
        (if cache_in_memory self then
           (case (input_cache self, target_cache self) of
              (Some ic, Some tc) \<Rightarrow>
                (case getidx ic idx of
                   Inl e \<Rightarrow> Inl e
                 | Inr input_map \<Rightarrow>
                     (case getidx tc idx of
                        Inl e \<Rightarrow> Inl e
                      | Inr target_map \<Rightarrow> Inr (input_map, target_map)))
            | _ \<Rightarrow> Inl ValueError)
         else
           (case h5_open_dataset fs (input_path self) ''Maps_Mcdm'' of
              Inl e \<Rightarrow> Inl e
            | Inr a \<Rightarrow>
                (case getidx a idx of
                   Inl e \<Rightarrow> Inl e
                 | Inr im \<Rightarrow>
                     (case h5_open_dataset fs (target_path self) ''Maps_Mtot'' of
                        Inl e \<Rightarrow> Inl e
                      | Inr b \<Rightarrow>
                          (case getidx b idx of
                             Inl e \<Rightarrow> Inl e
                           | Inr tm \<Rightarrow> Inr (astype_map f32 im, astype_map f32 tm))))))
      in case maps of
           Inl e \<Rightarrow> (Inl e, self)
         | Inr (input_map, target_map) \<Rightarrow>
             (Inr (normalize_pair rnd input_map target_map), self))"

section \<open>config.py\<close>

text \<open>
  The module constants the modelled code reads. \<open>LEARNING_RATE\<close> is consumed by the
  optimizer, which is a parameter here, and \<open>NUM_WORKERS\<close> is 0 (batches are fetched
  by the training process itself); \<open>BASE_DIR\<close> is the directory of the script.
\<close>

record config =
  DEVICE :: string
  BATCH_SIZE :: nat
  NUM_EPOCHS :: nat
  SUITE :: string
  DATASET_TYPE :: string
  BASE_DIR :: string

text \<open>
  \<open>str.lower()\<close> on ASCII text: a letter from \<open>A\<close> (65) to \<open>Z\<close> (90) gets 32 added, which
  sets the bit of value 32.
\<close>

definition lower_char :: "char \<Rightarrow> char" where
  "lower_char c =
     (if (65::nat) \<le> of_char c \<and> of_char c \<le> (90::nat)
      then (case c of Char b0 b1 b2 b3 b4 b5 b6 b7 \<Rightarrow> Char b0 b1 b2 b3 b4 True b6 b7)
      else c)"

definition lower :: "string \<Rightarrow> string" where
  "lower s = map lower_char s"

definition DATA_DIR :: "config \<Rightarrow> string" where
  "DATA_DIR cfg = path_join (BASE_DIR cfg) ''data''"

definition WEIGHTS_DIR :: "config \<Rightarrow> string" where
  "WEIGHTS_DIR cfg = path_join (BASE_DIR cfg) ''weights''"

definition MODEL_NAME :: "config \<Rightarrow> string" where
  "MODEL_NAME cfg =
     ''unet_'' @ lower (SUITE cfg) @ ''_'' @ lower (DATASET_TYPE cfg) @ ''_v1.pth''"

section \<open>The process environment: files, output, randomness\<close>

text \<open>
  A file of the weights directory is a serialized parameter snapshot, a traced graph, or
  an incomplete file left by a write that did not finish.
\<close>

datatype 'm wfile = Partial | Checkpoint 'm | Traced 'm

text \<open>
  What happens to the next file-system operation is decided by the environment: it
  completes, it fails before touching the target, it fails after the target was opened
  for writing, or the process is killed while it writes. An empty schedule means that
  every further operation completes.
\<close>

datatype io_outcome = Completes | FailsBefore | FailsMidWrite | KilledMidWrite

text \<open>
  The lines \<open>print\<close> writes; formatted numbers are kept as values, and the empty line
  some messages start with is dropped.
\<close>

datatype out_line =
    Str string
  | Data_loaded_line nat nat
  | Epoch_line nat nat pyfloat pyfloat
  | New_best_line pyfloat
  | Error_type_line py_error
  | Error_message_line py_error

record ('m, 'g) world =
  files :: "string \<rightharpoonup> 'm wfile"
  stdout :: "out_line list"
  io :: "io_outcome list"
  gen :: 'g

definition print :: "out_line \<Rightarrow> ('m, 'g) world \<Rightarrow> ('m, 'g) world" where
  "print l w = w\<lparr>stdout := stdout w @ [l]\<rparr>"

text \<open>
  \<open>torch.save(obj, path)\<close> and \<open>ScriptModule.save(path)\<close> open \<open>path\<close> itself for
  writing and write into it.
\<close>

definition write_file ::
  "'m wfile \<Rightarrow> string \<Rightarrow> ('m, 'g) world \<Rightarrow> (py_error + unit) \<times> ('m, 'g) world" where
  "write_file content path w =
     (case io w of
        [] \<Rightarrow> (Inr (), w\<lparr>files := (files w)(path \<mapsto> content)\<rparr>)
      | Completes # rest \<Rightarrow>
          (Inr (), w\<lparr>files := (files w)(path \<mapsto> content), io := rest\<rparr>)
      | FailsBefore # rest \<Rightarrow> (Inl OSError, w\<lparr>io := rest\<rparr>)
      | FailsMidWrite # rest \<Rightarrow>
          (Inl OSError, w\<lparr>files := (files w)(path \<mapsto> Partial), io := rest\<rparr>)
      | KilledMidWrite # rest \<Rightarrow>
          (Inl ProcessKilled, w\<lparr>files := (files w)(path \<mapsto> Partial), io := rest\<rparr>))"

definition torch_save ::
  "'m \<Rightarrow> string \<Rightarrow> ('m, 'g) world \<Rightarrow> (py_error + unit) \<times> ('m, 'g) world" where
  "torch_save state_dict path w = write_file (Checkpoint state_dict) path w"

text \<open>\<open>os.makedirs(dir, exist_ok=True)\<close>: no file changes; it can fail.\<close>

definition os_makedirs ::
  "string \<Rightarrow> ('m, 'g) world \<Rightarrow> (py_error + unit) \<times> ('m, 'g) world" where
  "os_makedirs dir w =
     (case io w of
        [] \<Rightarrow> (Inr (), w)
      | Completes # rest \<Rightarrow> (Inr (), w\<lparr>io := rest\<rparr>)
      | KilledMidWrite # rest \<Rightarrow> (Inl ProcessKilled, w\<lparr>io := rest\<rparr>)
      | _ # rest \<Rightarrow> (Inl OSError, w\<lparr>io := rest\<rparr>))"

text \<open>
  The capabilities taken from PyTorch and NumPy: the random permutation drawn from the
  global generator, the network with its optimizer (\<open>train_step\<close> is forward, loss,
  \<open>zero_grad\<close>, \<open>backward\<close>, \<open>step\<close> and \<open>loss.item()\<close> for one batch; \<open>eval_loss\<close> is
  forward and loss under \<open>no_grad\<close>), float addition and division, and the two
  roundings of the datasets.
\<close>

record ('m, 'g) torch =
  randperm :: "'g \<Rightarrow> nat \<Rightarrow> nat list \<times> 'g"
  UNet :: "'g \<Rightarrow> 'm \<times> 'g"
  train_step :: "'m \<Rightarrow> (tensor \<times> tensor) list \<Rightarrow> 'm \<times> pyfloat"
  eval_loss :: "'m \<Rightarrow> (tensor \<times> tensor) list \<Rightarrow> pyfloat"
  fadd :: "pyfloat \<Rightarrow> pyfloat \<Rightarrow> pyfloat"
  fdiv :: "pyfloat \<Rightarrow> nat \<Rightarrow> pyfloat"
  astype_f32 :: "pyfloat \<Rightarrow> pyfloat"
  log1p_rnd :: "real \<Rightarrow> real"

section \<open>exporter.py\<close>

definition quoted :: "string \<Rightarrow> string" where
  "quoted s = [CHR 0x27] @ s @ [CHR 0x27]"

text \<open>
  \<open>export_model_to_torchscript\<close>. Loading anything but a complete snapshot raises
  (modelled as \<open>ValueError\<close>); the traced module of a network is \<open>Traced\<close> of its
  parameters.
\<close>

definition export_model_to_torchscript ::
  "config \<Rightarrow> ('m, 'g) world \<Rightarrow> (py_error + unit) \<times> ('m, 'g) world" where
  "export_model_to_torchscript cfg w0 =
     (let w1 = print (Str ''--- Starting Model Export to TorchScript ---'') w0;
          weights_path = path_join (WEIGHTS_DIR cfg) (MODEL_NAME cfg);
          export_path = path_join (WEIGHTS_DIR cfg) ''traced_unet_model.pt''
      in case files w1 weights_path of
           None \<Rightarrow>
             (Inr (),
              print (Str ''Please run train.py to train and save the model first.'')
                (print (Str (''Error: Trained weights file not found at ''
                             @ quoted weights_path)) w1))
         | Some f \<Rightarrow>
             (let w2 = print (Str (''Loading trained weights from: '' @ weights_path)) w1
              in case f of
                   Checkpoint sd \<Rightarrow>
                     (let w3 = print
                            (Str ''Model architecture created and weights loaded successfully.'') w2;
                          w4 = print (Str ''Tracing model with dummy input...'') w3;
                          w5 = print (Str ''Model traced successfully.'') w4
                      in case write_file (Traced sd) export_path w5 of
                           (Inl e, w6) \<Rightarrow> (Inl e, w6)
                         | (Inr u, w6) \<Rightarrow>
                             (Inr (),
                              print (Str (''TorchScript model saved to: '' @ export_path))
                                (print (Str ''--- Export SUCCESSFUL ---'') w6)))
                 | _ \<Rightarrow> (Inl ValueError, w2)))"

section \<open>train.py\<close>

subsection \<open>The sizes of the two subsets\<close>

text \<open>
  \<open>int(len(full_dataset) * 0.1)\<close> multiplies in double precision and truncates. The
  double nearest to 0.1 is \<open>3602879701896397 / 2^55\<close>; a length below \<open>2^53\<close> converts
  exactly, the product is rounded to 53 significant bits (to nearest, ties to even),
  and \<open>int\<close> drops the fraction.
\<close>

definition tenth_mantissa :: nat where
  "tenth_mantissa = 3602879701896397"

fun bit_length :: "nat \<Rightarrow> nat" where
  "bit_length n = (if n = 0 then 0 else Suc (bit_length (n div 2)))"

declare bit_length.simps [simp del]

definition int_of_times_tenth :: "nat \<Rightarrow> nat" where
  "int_of_times_tenth n =
     (let p = n * tenth_mantissa;
          s = bit_length p - 53;
          q = p div 2 ^ s;
          r = p mod 2 ^ s;
          q' = (if 2 ^ s < 2 * r \<or> (2 * r = 2 ^ s \<and> odd q) then q + 1 else q)
      in (q' * 2 ^ s) div 2 ^ 55)"

subsection \<open>\<open>random_split\<close> and \<open>DataLoader\<close>\<close>

text \<open>
  \<open>random_split(dataset, [train_size, val_size])\<close> without a generator argument: the
  lengths must add up to the length of the dataset; one permutation of all indices is
  drawn from the global generator and cut into the first \<open>train_size\<close> and the next
  \<open>val_size\<close> indices. A \<open>Subset\<close> is its list of indices.
\<close>

definition random_split ::
  "('m, 'g) torch \<Rightarrow> nat \<Rightarrow> nat \<Rightarrow> nat \<Rightarrow> 'g \<Rightarrow> (py_error + nat list \<times> nat list) \<times> 'g" where
  "random_split T n train_size val_size g =
     (if train_size + val_size \<noteq> n then (Inl ValueError, g)
      else case randperm T g (train_size + val_size) of
             (indices, g') \<Rightarrow>
               (Inr (take train_size indices, take val_size (drop train_size indices)), g'))"

record loader =
  dl_subset :: "nat list"
  dl_batch_size :: nat
  dl_shuffle :: bool

text \<open>
  \<open>DataLoader(subset, batch_size=..., shuffle=...)\<close>: with \<open>shuffle=True\<close> the sampler
  refuses an empty dataset, and the batch sampler refuses a batch size that is not
  positive.
\<close>

definition DataLoader :: "nat list \<Rightarrow> nat \<Rightarrow> bool \<Rightarrow> py_error + loader" where
  "DataLoader sub bs shuffle =
     (if shuffle \<and> sub = [] then Inl ValueError
      else if bs = 0 then Inl ValueError
      else Inr \<lparr>dl_subset = sub, dl_batch_size = bs, dl_shuffle = shuffle\<rparr>)"

text \<open>\<open>len(loader)\<close>: the number of batches, the last one possibly short.\<close>

definition loader_len :: "loader \<Rightarrow> nat" where
  "loader_len L = (length (dl_subset L) + dl_batch_size L - 1) div dl_batch_size L"

function chunks :: "nat \<Rightarrow> 'a list \<Rightarrow> 'a list list" where
  "chunks n xs = (if n = 0 \<or> xs = [] then [] else take n xs # chunks n (drop n xs))"
  by pat_completeness auto
termination
  by (relation "measure (\<lambda>(n, xs). length xs)") auto

declare chunks.simps [simp del]

text \<open>
  Starting an iteration over a loader: the positions \<open>0..len-1\<close> of the subset, in a
  fresh random order when \<open>shuffle\<close> is set, grouped into batches.
\<close>

definition loader_iter :: "('m, 'g) torch \<Rightarrow> loader \<Rightarrow> 'g \<Rightarrow> nat list list \<times> 'g" where
  "loader_iter T L g =
     (if dl_shuffle L then
        (case randperm T g (length (dl_subset L)) of
           (order, g') \<Rightarrow> (chunks (dl_batch_size L) order, g'))
      else (chunks (dl_batch_size L) [0..<length (dl_subset L)], g))"

text \<open>
  Fetching one batch: position \<open>j\<close> of the subset is sample \<open>subset[j]\<close> of the
  dataset, read by \<open>__getitem__\<close>.
\<close>

fun fetch_batch ::
  "('m, 'g) torch \<Rightarrow> CAMELSDataset \<Rightarrow> nat list \<Rightarrow> nat list \<Rightarrow> py_error + (tensor \<times> tensor) list" where
  "fetch_batch T ds sub [] = Inr []"
| "fetch_batch T ds sub (j # js) =
     (case getidx sub (int j) of
        Inl e \<Rightarrow> Inl e
      | Inr i \<Rightarrow>
          (case fst (CAMELSDataset_getitem (log1p_rnd T) ds (int i)) of
             Inl e \<Rightarrow> Inl e
           | Inr sample \<Rightarrow>
               (case fetch_batch T ds sub js of
                  Inl e \<Rightarrow> Inl e
                | Inr samples \<Rightarrow> Inr (sample # samples))))"

subsection \<open>The two phases of an epoch\<close>

text \<open>
  An exception that leaves \<open>train_model\<close> is returned with the part of the function it
  was raised in (its traceback): the setup before the loop, or a phase of an epoch,
  epochs counted from 0 as \<open>range\<close> does.
\<close>

datatype phase = Setup | TrainPhase nat | ValidatePhase nat | CheckpointDecision nat | Finalize

text \<open>\<open>x / n\<close> for a float and an \<open>int\<close>.\<close>

definition py_fdiv :: "('m, 'g) torch \<Rightarrow> pyfloat \<Rightarrow> nat \<Rightarrow> py_error + pyfloat" where
  "py_fdiv T x n = (if n = 0 then Inl ZeroDivisionError else Inr (fdiv T x n))"

text \<open>The body of \<open>for data, targets in train_loader\<close>, over the batches still to come.\<close>

fun train_batches ::
  "('m, 'g) torch \<Rightarrow> CAMELSDataset \<Rightarrow> nat list \<Rightarrow> nat list list \<Rightarrow> 'm \<Rightarrow> pyfloat
     \<Rightarrow> py_error + 'm \<times> pyfloat" where
  "train_batches T ds sub [] m running_loss = Inr (m, running_loss)"
| "train_batches T ds sub (b # bs) m running_loss =
     (case fetch_batch T ds sub b of
        Inl e \<Rightarrow> Inl e
      | Inr batch \<Rightarrow>
          (case train_step T m batch of
             (m', loss) \<Rightarrow> train_batches T ds sub bs m' (fadd T running_loss loss)))"

fun val_batches ::
  "('m, 'g) torch \<Rightarrow> CAMELSDataset \<Rightarrow> nat list \<Rightarrow> nat list list \<Rightarrow> 'm \<Rightarrow> pyfloat
     \<Rightarrow> py_error + pyfloat" where
  "val_batches T ds sub [] m val_loss = Inr val_loss"
| "val_batches T ds sub (b # bs) m val_loss =
     (case fetch_batch T ds sub b of
        Inl e \<Rightarrow> Inl e
      | Inr batch \<Rightarrow> val_batches T ds sub bs m (fadd T val_loss (eval_loss T m batch)))"

definition train_phase ::
  "('m, 'g) torch \<Rightarrow> CAMELSDataset \<Rightarrow> loader \<Rightarrow> 'm \<Rightarrow> ('m, 'g) world
     \<Rightarrow> (py_error + 'm \<times> pyfloat) \<times> ('m, 'g) world" where
  "train_phase T ds train_loader m w =
     (case loader_iter T train_loader (gen w) of
        (batches, g') \<Rightarrow>
          (case train_batches T ds (dl_subset train_loader) batches m (Fin 0) of
             Inl e \<Rightarrow> (Inl e, w\<lparr>gen := g'\<rparr>)
           | Inr (m', running_loss) \<Rightarrow>
               (case py_fdiv T running_loss (loader_len train_loader) of
                  Inl e \<Rightarrow> (Inl e, w\<lparr>gen := g'\<rparr>)
                | Inr avg_train_loss \<Rightarrow> (Inr (m', avg_train_loss), w\<lparr>gen := g'\<rparr>))))"

definition validate_phase ::
  "('m, 'g) torch \<Rightarrow> CAMELSDataset \<Rightarrow> loader \<Rightarrow> 'm \<Rightarrow> ('m, 'g) world
     \<Rightarrow> (py_error + pyfloat) \<times> ('m, 'g) world" where
  "validate_phase T ds val_loader m w =
     (case loader_iter T val_loader (gen w) of
        (batches, g') \<Rightarrow>
          (case val_batches T ds (dl_subset val_loader) batches m (Fin 0) of
             Inl e \<Rightarrow> (Inl e, w\<lparr>gen := g'\<rparr>)
           | Inr val_loss \<Rightarrow>
               (case py_fdiv T val_loss (loader_len val_loader) of
                  Inl e \<Rightarrow> (Inl e, w\<lparr>gen := g'\<rparr>)
                | Inr avg_val_loss \<Rightarrow> (Inr avg_val_loss, w\<lparr>gen := g'\<rparr>))))"

subsection \<open>Saving the best model\<close>

definition best_model_path :: "config \<Rightarrow> string" where
  "best_model_path cfg = path_join (WEIGHTS_DIR cfg) (''best_'' @ MODEL_NAME cfg)"

definition model_path :: "config \<Rightarrow> string" where
  "model_path cfg = path_join (WEIGHTS_DIR cfg) (MODEL_NAME cfg)"

text \<open>
  The body of \<open>if avg_val_loss < best_val_loss\<close>; it returns the new value of
  \<open>best_val_loss\<close>. Nothing catches an exception here.
\<close>

definition save_best ::
  "config \<Rightarrow> 'm \<Rightarrow> pyfloat \<Rightarrow> ('m, 'g) world \<Rightarrow> (py_error + pyfloat) \<times> ('m, 'g) world" where
  "save_best cfg m avg_val_loss w =
     (case os_makedirs (WEIGHTS_DIR cfg) w of
        (Inl e, w1) \<Rightarrow> (Inl e, w1)
      | (Inr u, w1) \<Rightarrow>
          (case torch_save m (best_model_path cfg) w1 of
             (Inl e, w2) \<Rightarrow> (Inl e, w2)
           | (Inr u', w2) \<Rightarrow> (Inr avg_val_loss, print (New_best_line avg_val_loss) w2)))"

definition checkpoint_decision ::
  "config \<Rightarrow> 'm \<Rightarrow> pyfloat \<Rightarrow> pyfloat \<Rightarrow> ('m, 'g) world
     \<Rightarrow> (py_error + pyfloat) \<times> ('m, 'g) world" where
  "checkpoint_decision cfg m avg_val_loss best_val_loss w =
     (if flt avg_val_loss best_val_loss then save_best cfg m avg_val_loss w
      else (Inr best_val_loss, w))"

subsection \<open>The epoch loop\<close>

text \<open>The variables that live across epochs.\<close>

record 'm loop_state =
  model :: 'm
  best_val_loss :: pyfloat

definition run_epoch ::
  "('m, 'g) torch \<Rightarrow> config \<Rightarrow> CAMELSDataset \<Rightarrow> loader \<Rightarrow> loader \<Rightarrow> nat
     \<Rightarrow> 'm loop_state \<Rightarrow> ('m, 'g) world
     \<Rightarrow> (phase \<times> py_error + 'm loop_state) \<times> ('m, 'g) world" where
  "run_epoch T cfg ds train_loader val_loader epoch ls w =
     (case train_phase T ds train_loader (model ls) w of
        (Inl e, w1) \<Rightarrow> (Inl (TrainPhase epoch, e), w1)
      | (Inr (m', avg_train_loss), w1) \<Rightarrow>
          (case validate_phase T ds val_loader m' w1 of
             (Inl e, w2) \<Rightarrow> (Inl (ValidatePhase epoch, e), w2)
           | (Inr avg_val_loss, w2) \<Rightarrow>
               (let w3 = print (Epoch_line (epoch + 1) (NUM_EPOCHS cfg)
                                  avg_train_loss avg_val_loss) w2
                in case checkpoint_decision cfg m' avg_val_loss (best_val_loss ls) w3 of
                     (Inl e, w4) \<Rightarrow> (Inl (CheckpointDecision epoch, e), w4)
                   | (Inr best, w4) \<Rightarrow>
                       (Inr \<lparr>model = m', best_val_loss = best\<rparr>, w4))))"

fun epoch_loop ::
  "('m, 'g) torch \<Rightarrow> config \<Rightarrow> CAMELSDataset \<Rightarrow> loader \<Rightarrow> loader \<Rightarrow> nat list
     \<Rightarrow> 'm loop_state \<Rightarrow> ('m, 'g) world
     \<Rightarrow> (phase \<times> py_error + 'm loop_state) \<times> ('m, 'g) world" where
  "epoch_loop T cfg ds train_loader val_loader [] ls w = (Inr ls, w)"
| "epoch_loop T cfg ds train_loader val_loader (epoch # rest) ls w =
     (case run_epoch T cfg ds train_loader val_loader epoch ls w of
        (Inl e, w') \<Rightarrow> (Inl e, w')
      | (Inr ls', w') \<Rightarrow> epoch_loop T cfg ds train_loader val_loader rest ls' w')"

subsection \<open>Saving the final model\<close>

text \<open>The \<open>except Exception\<close> clause: it reports and goes on.\<close>

definition report_save_error :: "py_error \<Rightarrow> ('m, 'g) world \<Rightarrow> ('m, 'g) world" where
  "report_save_error e w =
     print (Str ''The model was NOT saved.'')
       (print (Error_message_line e)
          (print (Error_type_line e)
             (print (Str ''---! AN ERROR OCCURRED DURING SAVING !---'') w)))"

definition except_Exception ::
  "py_error \<Rightarrow> ('m, 'g) world \<Rightarrow> (phase \<times> py_error + unit) \<times> ('m, 'g) world" where
  "except_Exception e w =
     (if e = ProcessKilled then (Inl (Finalize, e), w) else (Inr (), report_save_error e w))"

definition save_final ::
  "config \<Rightarrow> 'm \<Rightarrow> ('m, 'g) world \<Rightarrow> (phase \<times> py_error + unit) \<times> ('m, 'g) world" where
  "save_final cfg m w =
     (let w1 = print (Str ''Step 1: Creating weights directory (if it doesn't exist)...'') w
      in case os_makedirs (WEIGHTS_DIR cfg) w1 of
           (Inl e, w2) \<Rightarrow> except_Exception e w2
         | (Inr u, w2) \<Rightarrow>
             (let w3 = print (Str (''Step 2: Preparing to save model to: '' @ model_path cfg)) w2;
                  w4 = print (Str ''Step 3: Moving model to CPU for safe saving...'') w3
              in case torch_save m (model_path cfg) w4 of
                   (Inl e, w5) \<Rightarrow> except_Exception e w5
                 | (Inr u', w5) \<Rightarrow>
                     (Inr (),
                      print (Str (''Model saved to '' @ model_path cfg))
                        (print (Str ''Step 4: torch.save command executed successfully.'')
                           w5))))"

subsection \<open>\<open>train_model\<close>\<close>

text \<open>
  The calls to the experiment tracker (\<open>wandb.init\<close>, \<open>wandb.log\<close>, \<open>wandb.finish\<close>)
  are not modelled. A checkpoint holds the parameters whatever device they were on.
\<close>

text \<open>
  Sections 1 and 2 of \<open>train_model\<close>: the data, the two loaders, the network.
  \<open>val_size\<close> never exceeds the length for lengths a double represents exactly, so
  \<open>train_size\<close> is not negative.
\<close>

definition train_setup ::
  "('m, 'g) torch \<Rightarrow> config \<Rightarrow> npy_fs \<Rightarrow> ('m, 'g) world
     \<Rightarrow> (phase \<times> py_error + CAMELSDataset \<times> loader \<times> loader \<times> 'm) \<times> ('m, 'g) world" where
  "train_setup T cfg data w0 =
     (let w1 = print (Str ''Loading dataset...'')
                 (print (Str ''--- Weights & Biases tracking is enabled ---'')
                    (print (Str (''--- Starting Training on '' @ DEVICE cfg @ '' ---'')) w0))
      in case CAMELSDataset_init (astype_f32 T) data (DATA_DIR cfg) (SUITE cfg)
                (DATASET_TYPE cfg) of
           Inl e \<Rightarrow> (Inl (Setup, e), w1)
         | Inr full_dataset \<Rightarrow>
             (let val_size = int_of_times_tenth (CAMELSDataset_len full_dataset);
                  train_size = CAMELSDataset_len full_dataset - val_size
              in case random_split T (CAMELSDataset_len full_dataset) train_size val_size
                        (gen w1) of
                   (Inl e, g) \<Rightarrow> (Inl (Setup, e), w1\<lparr>gen := g\<rparr>)
                 | (Inr (train_dataset, val_dataset), g) \<Rightarrow>
                     (case DataLoader train_dataset (BATCH_SIZE cfg) True of
                        Inl e \<Rightarrow> (Inl (Setup, e), w1\<lparr>gen := g\<rparr>)
                      | Inr train_loader \<Rightarrow>
                          (case DataLoader val_dataset (BATCH_SIZE cfg) False of
                             Inl e \<Rightarrow> (Inl (Setup, e), w1\<lparr>gen := g\<rparr>)
                           | Inr val_loader \<Rightarrow>
                               (case UNet T g of
                                  (m0, g') \<Rightarrow>
                                    (Inr (full_dataset, train_loader, val_loader, m0),
                                     print (Str ''--- Entering Training Loop ---'')
                                       (print (Data_loaded_line train_size val_size)
                                          (w1\<lparr>gen := g'\<rparr>))))))))"

definition train_model ::
  "('m, 'g) torch \<Rightarrow> config \<Rightarrow> npy_fs \<Rightarrow> ('m, 'g) world
     \<Rightarrow> (phase \<times> py_error + unit) \<times> ('m, 'g) world" where
  "train_model T cfg data w0 =
     (case train_setup T cfg data w0 of
        (Inl e, w2) \<Rightarrow> (Inl e, w2)
      | (Inr (full_dataset, train_loader, val_loader, m0), w2) \<Rightarrow>
          (case epoch_loop T cfg full_dataset train_loader val_loader [0..<NUM_EPOCHS cfg]
                  \<lparr>model = m0, best_val_loss = PInf\<rparr> w2 of
             (Inl e, w3) \<Rightarrow> (Inl e, w3)
           | (Inr ls, w3) \<Rightarrow>
               (let w4 = print (Str ''--- Proceeding to save model weights. ---'')
                           (print (Str ''--- Training Finished ---'') w3)
                in case save_final cfg (model ls) w4 of
                     (Inl e, w5) \<Rightarrow> (Inl e, w5)
                   | (Inr u, w5) \<Rightarrow>
                       (Inr (),
                        print (Str ''W&B run finished.'')
                          (print (Str ''Finalizing Weights & Biases run...'') w5)))))"

section \<open>Example archives\<close>

text \<open>
  A data directory whose two HDF5 archives disagree: two input maps, one target map.
\<close>

definition h5_mismatch_fs :: h5_fs where
  "h5_mismatch_fs =
     [''data/Maps_Mcdm_IllustrisTNG_CV_z=0.00.hdf5'' \<mapsto>
        [''Maps_Mcdm'' \<mapsto> [[[Fin 0]], [[Fin 1]]]],
      ''data/Maps_Mtot_IllustrisTNG_CV_z=0.00.hdf5'' \<mapsto>
        [''Maps_Mtot'' \<mapsto> [[[Fin 0]]]]]"

text \<open>A matching pair of HDF5 archives with two samples each.\<close>

definition h5_demo_fs :: h5_fs where
  "h5_demo_fs =
     [''data/Maps_Mcdm_IllustrisTNG_CV_z=0.00.hdf5'' \<mapsto>
        [''Maps_Mcdm'' \<mapsto> [[[Fin 0, Fin 1]], [[Fin 2, Fin 0]]]],
      ''data/Maps_Mtot_IllustrisTNG_CV_z=0.00.hdf5'' \<mapsto>
        [''Maps_Mtot'' \<mapsto> [[[Fin 1, Fin 1]], [[Fin 3, Fin 0]]]]]"

definition h5_demo :: "bool \<Rightarrow> CAMELSDatasetHDF5" where
  "h5_demo cache =
     \<lparr>h5_root_dir = ''data'', h5_suite = ''IllustrisTNG'', h5_dataset_type = ''CV'',
      h5_redshift = ''0.00'', cache_in_memory = cache,
      input_path = ''data/Maps_Mcdm_IllustrisTNG_CV_z=0.00.hdf5'',
      target_path = ''data/Maps_Mtot_IllustrisTNG_CV_z=0.00.hdf5'',
      n_simulations = 2,
      input_cache = (if cache then Some [[[Fin 0, Fin 1]], [[Fin 2, Fin 0]]] else None),
      target_cache = (if cache then Some [[[Fin 1, Fin 1]], [[Fin 3, Fin 0]]] else None)\<rparr>"

text \<open>A matching pair of \<open>.npy\<close> archives and the dataset built from it.\<close>

definition npy_demo_fs :: npy_fs where
  "npy_demo_fs =
     [''data/Maps_Mcdm_IllustrisTNG_CV_z=0.00.npy'' \<mapsto> [[[Fin 0, Fin 1]], [[Fin 2, Fin 0]]],
      ''data/Maps_Mtot_IllustrisTNG_CV_z=0.00.npy'' \<mapsto> [[[Fin 1, Fin 1]], [[Fin 3, Fin 0]]]]"

definition npy_demo :: CAMELSDataset where
  "npy_demo = \<lparr>root_dir = ''data'',
      input_maps = [[[Fin 0, Fin 1]], [[Fin 2, Fin 0]]],
      target_maps = [[[Fin 1, Fin 1]], [[Fin 3, Fin 0]]]\<rparr>"

text \<open>A pair of \<open>.npy\<close> archives whose input map stores \<open>+inf\<close>.\<close>

definition npy_inf_fs :: npy_fs where
  "npy_inf_fs =
     [''data/Maps_Mcdm_IllustrisTNG_CV_z=0.00.npy'' \<mapsto> [[[PInf]]],
      ''data/Maps_Mtot_IllustrisTNG_CV_z=0.00.npy'' \<mapsto> [[[Fin 0]]]]"

definition npy_inf :: CAMELSDataset where
  "npy_inf = \<lparr>root_dir = ''data'', input_maps = [[[PInf]]], target_maps = [[[Fin 0]]]\<rparr>"

text \<open>A configuration like the one of \<open>config.py\<close>, with two epochs.\<close>

definition demo_cfg :: config where
  "demo_cfg = \<lparr>DEVICE = ''cpu'', BATCH_SIZE = 4, NUM_EPOCHS = 2, SUITE = ''IllustrisTNG'',
      DATASET_TYPE = ''CV'', BASE_DIR = ''/repo''\<rparr>"

text \<open>A process that starts with an empty weights directory and no pending fault.\<close>

definition empty_world :: "(nat, nat) world" where
  "empty_world = \<lparr>files = Map.empty, stdout = [], io = [], gen = 0\<rparr>"

text \<open>
  A stand-in for the PyTorch capabilities: the permutation is the reversed range, every
  training step returns loss 1 and counts the steps in the model state, and the
  validation loss of a batch is \<open>f\<close> of that count; float arithmetic is exact.
\<close>

fun demo_fadd :: "pyfloat \<Rightarrow> pyfloat \<Rightarrow> pyfloat" where
  "demo_fadd (Fin a) (Fin b) = Fin (a + b)"
| "demo_fadd _ _ = NaN"

fun demo_fdiv :: "pyfloat \<Rightarrow> nat \<Rightarrow> pyfloat" where
  "demo_fdiv (Fin a) n = Fin (a / real n)"
| "demo_fdiv x n = x"

definition demo_torch :: "(nat \<Rightarrow> real) \<Rightarrow> (nat, nat) torch" where
  "demo_torch f =
     \<lparr>randperm = (\<lambda>g n. (rev [0..<n], Suc g)),
      UNet = (\<lambda>g. (0, Suc g)),
      train_step = (\<lambda>m batch. (Suc m, Fin 1)),
      eval_loss = (\<lambda>m batch. Fin (f m)),
      fadd = demo_fadd,
      fdiv = demo_fdiv,
      astype_f32 = (\<lambda>x. x),
      log1p_rnd = (\<lambda>x. x)\<rparr>"



text \<open>Archives of \<open>n\<close> one-pixel maps of value \<open>x\<close>, where \<open>demo_cfg\<close> looks for them.\<close>

definition demo_data :: "nat \<Rightarrow> real \<Rightarrow> npy_fs" where
  "demo_data n x =
     [''/repo/data/Maps_Mcdm_IllustrisTNG_CV_z=0.00.npy'' \<mapsto> replicate n [[Fin x]],
      ''/repo/data/Maps_Mtot_IllustrisTNG_CV_z=0.00.npy'' \<mapsto> replicate n [[Fin x]]]"

definition demo_dataset :: "nat \<Rightarrow> real \<Rightarrow> CAMELSDataset" where
  "demo_dataset n x = \<lparr>root_dir = ''/repo/data'',
      input_maps = replicate n [[Fin x]], target_maps = replicate n [[Fin x]]\<rparr>"

text \<open>
  What \<open>train_model\<close> builds over ten samples with \<open>demo_torch\<close>: the two loaders, and
  the process state on entering the epoch loop with a given schedule of outcomes.
\<close>

definition demo10_train_loader :: loader where
  "demo10_train_loader =
     \<lparr>dl_subset = [9, 8, 7, 6, 5, 4, 3, 2, 1], dl_batch_size = 4, dl_shuffle = True\<rparr>"

definition demo10_val_loader :: loader where
  "demo10_val_loader = \<lparr>dl_subset = [0], dl_batch_size = 4, dl_shuffle = False\<rparr>"

definition demo_w2 :: "io_outcome list \<Rightarrow> (nat, nat) world" where
  "demo_w2 sched =
     \<lparr>files = Map.empty,
      stdout = [Str ''--- Starting Training on cpu ---'',
            Str ''--- Weights & Biases tracking is enabled ---'',
            Str ''Loading dataset...'',
            Data_loaded_line 9 1,
            Str ''--- Entering Training Loop ---''],
      io = sched, gen = 2\<rparr>"




section \<open>Notions used to state the properties\<close>

text \<open>A list that holds each of \<open>0..n-1\<close> exactly once.\<close>

definition is_permutation :: "nat list \<Rightarrow> nat \<Rightarrow> bool" where
  "is_permutation p n = (distinct p \<and> set p = {0..<n})"

text \<open>The generator returns a permutation of \<open>0..n-1\<close> for every request.\<close>

definition randperm_ok :: "('m, 'g) torch \<Rightarrow> bool" where
  "randperm_ok T = (\<forall>g n. is_permutation (fst (randperm T g n)) n)"

text \<open>
  The average validation losses a run has printed so far, one per finished
  validation phase, oldest first.
\<close>

fun printed_val_losses :: "out_line list \<Rightarrow> pyfloat list" where
  "printed_val_losses [] = []"
| "printed_val_losses (Epoch_line e n t v # ls) = v # printed_val_losses ls"
| "printed_val_losses (l # ls) = printed_val_losses ls"




text \<open>The two index lists a successful setup hands to its loaders.\<close>

definition split_of ::
  "(phase \<times> py_error + CAMELSDataset \<times> loader \<times> loader \<times> 'm) \<Rightarrow>
     (phase \<times> py_error + nat list \<times> nat list)" where
  "split_of r =
     (case r of Inl e \<Rightarrow> Inl e
      | Inr (ds, train_loader, val_loader, m) \<Rightarrow> Inr (dl_subset train_loader, dl_subset val_loader))"

section \<open>Properties of the datasets\<close>

lemma getidx_map: "getidx (map f xs) i = map_sum (\<lambda>e. e) f (getidx xs i)"
  by (auto simp add: getidx_def nat_less_iff)

lemma getidx_in_range:
  "0 \<le> i \<Longrightarrow> i < int (length xs) \<Longrightarrow> getidx xs i = Inr (xs ! nat i)"
  by (simp add: getidx_def)

lemma log1p_isfinite: "nonneg_number x \<Longrightarrow> isfinite (log1p rnd x)"
  by (cases x) simp_all

lemma log1p_map_isfinite:
  "list_all (list_all nonneg_number) m \<Longrightarrow> list_all (list_all isfinite) (log1p_map rnd m)"
  by (simp add: log1p_map_def list_all_iff log1p_isfinite)

text \<open>The flat-array constructor compares the two leading dimensions.\<close>

lemma npy_init_rejects_mismatch:
  assumes "fs (path_join r (npy_input_filename s d)) = Some a"
    and "fs (path_join r (npy_target_filename s d)) = Some b"
    and "length a \<noteq> length b"
  shows "CAMELSDataset_init f32 fs r s d = Inl ValueError"
  using assms by (simp add: CAMELSDataset_init_def astype_def)

lemma npy_init_lengths:
  "CAMELSDataset_init f32 fs r s d = Inr self \<Longrightarrow>
     length (target_maps self) = length (input_maps self)"
  unfolding CAMELSDataset_init_def Let_def
  by (auto split: option.splits if_splits)

lemma npy_getitem_self: "snd (CAMELSDataset_getitem rnd self idx) = self"
  by (simp add: CAMELSDataset_getitem_def split: sum.splits)

lemma hdf5_getitem_self: "snd (CAMELSDatasetHDF5_getitem f32 rnd fs self idx) = self"
  by (simp add: CAMELSDatasetHDF5_getitem_def Let_def split: sum.splits prod.splits)

lemma hdf5_init_cachedD:
  assumes "CAMELSDatasetHDF5_init f32 fs r s d z True = Inr dc"
  shows "\<exists>a b. h5_open_dataset fs (input_path dc) ''Maps_Mcdm'' = Inr a \<and>
               h5_open_dataset fs (target_path dc) ''Maps_Mtot'' = Inr b \<and>
               input_cache dc = Some (astype f32 a) \<and>
               target_cache dc = Some (astype f32 b) \<and>
               cache_in_memory dc \<and> n_simulations dc = length a \<and>
               input_path dc = path_join r (h5_input_filename s d z) \<and>
               target_path dc = path_join r (h5_target_filename s d z)"
  using assms unfolding CAMELSDatasetHDF5_init_def Let_def
  by (auto split: if_splits sum.splits)

lemma hdf5_init_lazyD:
  assumes "CAMELSDatasetHDF5_init f32 fs r s d z False = Inr dl"
  shows "\<exists>a. h5_open_dataset fs (input_path dl) ''Maps_Mcdm'' = Inr a \<and>
             \<not> cache_in_memory dl \<and> n_simulations dl = length a \<and>
             input_path dl = path_join r (h5_input_filename s d z) \<and>
             target_path dl = path_join r (h5_target_filename s d z)"
  using assms unfolding CAMELSDatasetHDF5_init_def Let_def
  by (auto split: if_splits sum.splits)

lemma npy_demo_init:
  "CAMELSDataset_init (\<lambda>x. x) npy_demo_fs ''data'' ''IllustrisTNG'' ''CV'' = Inr npy_demo"
  by (simp add: CAMELSDataset_init_def npy_demo_fs_def npy_demo_def path_join_def
      npy_input_filename_def npy_target_filename_def astype_def)

lemma h5_demo_init:
  "CAMELSDatasetHDF5_init (\<lambda>x. x) h5_demo_fs ''data'' ''IllustrisTNG'' ''CV'' ''0.00'' c
     = Inr (h5_demo c)"
  by (cases c)
     (simp_all add: CAMELSDatasetHDF5_init_def h5_demo_fs_def h5_demo_def path_join_def
       h5_input_filename_def h5_target_filename_def h5_open_dataset_def astype_def)

text \<open>
  C1. Constructing a dataset over archives with different sample counts must fail. The
  flat-array constructor does (\<open>npy_init_rejects_mismatch\<close>); the HDF5 constructor
  reads the sample count of the input archive only and never looks at the target's:
  over two input maps and one target map it returns a dataset of length 2, in the
  lazy mode and in the cached mode.
\<close>

theorem hdf5_init_accepts_mismatched_counts:
  "CAMELSDatasetHDF5_init (\<lambda>x. x) h5_mismatch_fs ''data'' ''IllustrisTNG'' ''CV'' ''0.00'' False
     = Inr \<lparr>h5_root_dir = ''data'', h5_suite = ''IllustrisTNG'', h5_dataset_type = ''CV'',
            h5_redshift = ''0.00'', cache_in_memory = False,
            input_path = ''data/Maps_Mcdm_IllustrisTNG_CV_z=0.00.hdf5'',
            target_path = ''data/Maps_Mtot_IllustrisTNG_CV_z=0.00.hdf5'',
            n_simulations = 2, input_cache = None, target_cache = None\<rparr>
   \<and> CAMELSDatasetHDF5_init (\<lambda>x. x) h5_mismatch_fs ''data'' ''IllustrisTNG'' ''CV'' ''0.00'' True
     = Inr \<lparr>h5_root_dir = ''data'', h5_suite = ''IllustrisTNG'', h5_dataset_type = ''CV'',
            h5_redshift = ''0.00'', cache_in_memory = True,
            input_path = ''data/Maps_Mcdm_IllustrisTNG_CV_z=0.00.hdf5'',
            target_path = ''data/Maps_Mtot_IllustrisTNG_CV_z=0.00.hdf5'',
            n_simulations = 2, input_cache = Some [[[Fin 0]], [[Fin 1]]],
            target_cache = Some [[[Fin 0]]]\<rparr>"
  by (simp add: CAMELSDatasetHDF5_init_def h5_mismatch_fs_def path_join_def
      h5_input_filename_def h5_target_filename_def h5_open_dataset_def astype_def)

text \<open>
  C7. Over the same data directory, the dataset built with \<open>cache_in_memory=True\<close> and
  the one built with \<open>cache_in_memory=False\<close> return the same prepared pair (or the
  same error) for every index in range: converting the whole array and then taking
  sample \<open>i\<close> is converting sample \<open>i\<close>.
\<close>

theorem hdf5_cached_equals_lazy:
  assumes c: "CAMELSDatasetHDF5_init f32 fs r s d z True = Inr dc"
    and l: "CAMELSDatasetHDF5_init f32 fs r s d z False = Inr dl"
    and i: "0 \<le> i" "i < int (CAMELSDatasetHDF5_len dl)"
  shows "fst (CAMELSDatasetHDF5_getitem f32 rnd fs dc i) =
         fst (CAMELSDatasetHDF5_getitem f32 rnd fs dl i)"
proof -
  from hdf5_init_cachedD [OF c] obtain a b where
    a: "h5_open_dataset fs (input_path dc) ''Maps_Mcdm'' = Inr a" and
    b: "h5_open_dataset fs (target_path dc) ''Maps_Mtot'' = Inr b" and
    ic: "input_cache dc = Some (astype f32 a)" and
    tc: "target_cache dc = Some (astype f32 b)" and
    cm: "cache_in_memory dc" and
    ip: "input_path dc = path_join r (h5_input_filename s d z)" and
    tp: "target_path dc = path_join r (h5_target_filename s d z)"
    by blast
  from hdf5_init_lazyD [OF l] have
    lm: "\<not> cache_in_memory dl" and
    ip': "input_path dl = path_join r (h5_input_filename s d z)" and
    tp': "target_path dl = path_join r (h5_target_filename s d z)"
    by blast+
  have a': "h5_open_dataset fs (input_path dl) ''Maps_Mcdm'' = Inr a"
    using a ip ip' by simp
  have b': "h5_open_dataset fs (target_path dl) ''Maps_Mtot'' = Inr b"
    using b tp tp' by simp
  let ?both = "case getidx a i of Inl e \<Rightarrow> Inl e | Inr im \<Rightarrow>
         (case getidx b i of Inl e \<Rightarrow> Inl e | Inr tm \<Rightarrow>
            Inr (normalize_pair rnd (astype_map f32 im) (astype_map f32 tm)))"
  have lazy: "fst (CAMELSDatasetHDF5_getitem f32 rnd fs dl i) = ?both"
    unfolding CAMELSDatasetHDF5_getitem_def Let_def
    by (simp add: lm a' b' split: sum.splits)
  have cached: "fst (CAMELSDatasetHDF5_getitem f32 rnd fs dc i) = ?both"
    unfolding CAMELSDatasetHDF5_getitem_def Let_def
    by (cases "getidx a i"; cases "getidx b i")
       (simp_all add: cm ic tc astype_def astype_map_def getidx_map)
  show ?thesis by (simp only: lazy cached)
qed

theorem hdf5_cached_equals_lazy_witness:
  "fst (CAMELSDatasetHDF5_getitem (\<lambda>x. x) (\<lambda>x. x) h5_demo_fs (h5_demo True) 1) =
   fst (CAMELSDatasetHDF5_getitem (\<lambda>x. x) (\<lambda>x. x) h5_demo_fs (h5_demo False) 1)
   \<and> fst (CAMELSDatasetHDF5_getitem (\<lambda>x. x) (\<lambda>x. x) h5_demo_fs (h5_demo False) 1) =
       Inr ([[[Fin (ln 3), Fin 0]]], [[[Fin (ln 4), Fin 0]]])"
proof
  show "fst (CAMELSDatasetHDF5_getitem (\<lambda>x. x) (\<lambda>x. x) h5_demo_fs (h5_demo True) 1) =
        fst (CAMELSDatasetHDF5_getitem (\<lambda>x. x) (\<lambda>x. x) h5_demo_fs (h5_demo False) 1)"
    using hdf5_cached_equals_lazy [OF h5_demo_init h5_demo_init, of 1 "\<lambda>x. x"]
    by (simp add: CAMELSDatasetHDF5_len_def h5_demo_def)
  show "fst (CAMELSDatasetHDF5_getitem (\<lambda>x. x) (\<lambda>x. x) h5_demo_fs (h5_demo False) 1) =
        Inr ([[[Fin (ln 3), Fin 0]]], [[[Fin (ln 4), Fin 0]]])"
    by (simp add: CAMELSDatasetHDF5_getitem_def h5_demo_def h5_demo_fs_def
        h5_open_dataset_def getidx_def astype_map_def normalize_pair_def log1p_map_def
        unsqueeze0_def)
qed

lemma npy_getitem_value:
  assumes init: "CAMELSDataset_init f32 fs r s d = Inr self"
    and idx: "0 \<le> idx" "idx < int (CAMELSDataset_len self)"
    and ni: "list_all (list_all (list_all nonneg_number)) (input_maps self)"
    and nt: "list_all (list_all (list_all nonneg_number)) (target_maps self)"
  shows "\<exists>it tt. CAMELSDataset_getitem rnd self idx = (Inr (it, tt), self) \<and>
          CAMELSDataset_getitem rnd (snd (CAMELSDataset_getitem rnd self idx)) idx
            = (Inr (it, tt), self) \<and>
          it = [map (map (log1p rnd)) (input_maps self ! nat idx)] \<and>
          tt = [map (map (log1p rnd)) (target_maps self ! nat idx)] \<and>
          list_all (list_all (list_all isfinite)) it \<and>
          list_all (list_all (list_all isfinite)) tt"
proof -
  let ?im = "input_maps self ! nat idx" and ?tm = "target_maps self ! nat idx"
  have li: "idx < int (length (input_maps self))"
    using idx by (simp add: CAMELSDataset_len_def)
  have lt: "idx < int (length (target_maps self))"
    using li npy_init_lengths [OF init] by simp
  have gi: "getidx (input_maps self) idx = Inr ?im"
    using idx(1) li by (rule getidx_in_range)
  have gt: "getidx (target_maps self) idx = Inr ?tm"
    using idx(1) lt by (rule getidx_in_range)
  have r: "CAMELSDataset_getitem rnd self idx =
      (Inr ([log1p_map rnd ?im], [log1p_map rnd ?tm]), self)"
    by (simp add: CAMELSDataset_getitem_def gi gt normalize_pair_def unsqueeze0_def)
  have "nat idx < length (input_maps self)" using idx(1) li by simp
  with ni have "list_all (list_all nonneg_number) ?im"
    by (simp add: list_all_length)
  then have fi: "list_all (list_all isfinite) (log1p_map rnd ?im)"
    by (rule log1p_map_isfinite)
  have "nat idx < length (target_maps self)" using idx(1) lt by simp
  with nt have "list_all (list_all nonneg_number) ?tm"
    by (simp add: list_all_length)
  then have ft: "list_all (list_all isfinite) (log1p_map rnd ?tm)"
    by (rule log1p_map_isfinite)
  show ?thesis
    using r fi ft by (simp add: log1p_map_def)
qed

lemma nonneg_number_iff: "nonneg_number x = (fle (Fin 0) x \<and> isfinite x)"
  by (cases x) (auto simp: fle_def)

lemma hdf5_init_D:
  assumes "CAMELSDatasetHDF5_init f32 fs r s d z c = Inr h"
  shows "cache_in_memory h = c \<and>
         (\<exists>a. h5_open_dataset fs (input_path h) ''Maps_Mcdm'' = Inr a \<and>
              n_simulations h = length a \<and>
              (c \<longrightarrow> input_cache h = Some (astype f32 a))) \<and>
         (c \<longrightarrow> (\<exists>b. h5_open_dataset fs (target_path h) ''Maps_Mtot'' = Inr b \<and>
                      target_cache h = Some (astype f32 b)))"
proof (cases c)
  case True
  with assms hdf5_init_cachedD [of f32 fs r s d z h] show ?thesis by auto
next
  case False
  with assms hdf5_init_lazyD [of f32 fs r s d z h] show ?thesis by auto
qed

lemma hdf5_getitem_value:
  assumes hinit: "CAMELSDatasetHDF5_init g32 hfs hr hs ht hz c = Inr h"
    and ha: "h5_open_dataset hfs (input_path h) ''Maps_Mcdm'' = Inr a"
    and hb: "h5_open_dataset hfs (target_path h) ''Maps_Mtot'' = Inr b"
    and j: "0 \<le> j" "j < int (CAMELSDatasetHDF5_len h)" "j < int (length b)"
  shows "CAMELSDatasetHDF5_getitem g32 rnd hfs h j =
           (Inr (normalize_pair rnd (astype_map g32 (a ! nat j)) (astype_map g32 (b ! nat j))), h)"
proof -
  from hdf5_init_D [OF hinit] ha hb have
    cm: "cache_in_memory h = c" and
    n: "n_simulations h = length a" and
    ic: "c \<longrightarrow> input_cache h = Some (astype g32 a)" and
    tc: "c \<longrightarrow> target_cache h = Some (astype g32 b)"
    by auto
  have ja: "j < int (length a)" using j(2) n by (simp add: CAMELSDatasetHDF5_len_def)
  have ga: "getidx a j = Inr (a ! nat j)" using j(1) ja by (rule getidx_in_range)
  have gb: "getidx b j = Inr (b ! nat j)" using j(1) j(3) by (rule getidx_in_range)
  show ?thesis
  proof (cases c)
    case True
    with ic tc have "input_cache h = Some (astype g32 a)" "target_cache h = Some (astype g32 b)"
      by simp_all
    then show ?thesis
      using True cm
      by (simp add: CAMELSDatasetHDF5_getitem_def Let_def astype_def astype_map_def getidx_map
          ga gb)
  next
    case False
    then show ?thesis
      using cm by (simp add: CAMELSDatasetHDF5_getitem_def Let_def ha hb ga gb)
  qed
qed

lemma normalize_pair_finite:
  assumes "list_all (list_all nonneg_number) im" and "list_all (list_all nonneg_number) tm"
  shows "normalize_pair rnd im tm = ([map (map (log1p rnd)) im], [map (map (log1p rnd)) tm]) \<and>
         list_all (list_all (list_all isfinite)) (fst (normalize_pair rnd im tm)) \<and>
         list_all (list_all (list_all isfinite)) (snd (normalize_pair rnd im tm))"
  using log1p_map_isfinite [OF assms(1), of rnd] log1p_map_isfinite [OF assms(2), of rnd]
  by (simp add: normalize_pair_def unsqueeze0_def log1p_map_def)

text \<open>
  C8, as the claim states it: the \<open>log1p\<close> values are finite for all raw inputs \<open>\<ge> 0\<close>.
  A stored \<open>+inf\<close> is \<open>\<ge> 0\<close>, the dataset over it is constructed, and the prepared
  tensor of sample 0 holds \<open>+inf\<close>.
\<close>

theorem log1p_of_stored_infinity:
  "fle (Fin 0) PInf \<and> \<not> isfinite PInf \<and>
   CAMELSDataset_init (\<lambda>x. x) npy_inf_fs ''data'' ''IllustrisTNG'' ''CV'' = Inr npy_inf \<and>
   fst (CAMELSDataset_getitem (\<lambda>x. x) npy_inf 0) = Inr ([[[PInf]]], [[[Fin 0]]])"
  by (simp add: fle_def CAMELSDataset_init_def npy_inf_fs_def npy_inf_def path_join_def
      npy_input_filename_def npy_target_filename_def astype_def Let_def
      CAMELSDataset_getitem_def getidx_def normalize_pair_def log1p_map_def unsqueeze0_def)

text \<open>
  C8, amended. At an index in range, over raw maps whose values (after the conversion
  to float32) are \<open>\<ge> 0\<close> and finite, \<open>__getitem__\<close> of a constructed flat-array dataset
  and \<open>__getitem__\<close> of a constructed HDF5 dataset (in either mode, where both
  archives hold the sample) each return the pair of tensors made of one channel
  holding the element-wise \<open>log1p\<close> of the raw map; every value of both tensors is
  finite, the dataset object is returned as it was, and a second call returns the same
  pair.
\<close>

theorem getitem_transform_pure:
  assumes init: "CAMELSDataset_init f32 fs r s d = Inr self"
    and idx: "0 \<le> idx" "idx < int (CAMELSDataset_len self)"
    and ni: "list_all (list_all (list_all nonneg_number)) (input_maps self)"
    and nt: "list_all (list_all (list_all nonneg_number)) (target_maps self)"
    and hinit: "CAMELSDatasetHDF5_init g32 hfs hr hs ht hz c = Inr h"
    and ha: "h5_open_dataset hfs (input_path h) ''Maps_Mcdm'' = Inr a"
    and hb: "h5_open_dataset hfs (target_path h) ''Maps_Mtot'' = Inr b"
    and j: "0 \<le> j" "j < int (CAMELSDatasetHDF5_len h)" "j < int (length b)"
    and na: "list_all (list_all (list_all nonneg_number)) (astype g32 a)"
    and nb: "list_all (list_all (list_all nonneg_number)) (astype g32 b)"
  shows "(\<exists>it tt. CAMELSDataset_getitem rnd self idx = (Inr (it, tt), self) \<and>
          CAMELSDataset_getitem rnd (snd (CAMELSDataset_getitem rnd self idx)) idx
            = (Inr (it, tt), self) \<and>
          it = [map (map (log1p rnd)) (input_maps self ! nat idx)] \<and>
          tt = [map (map (log1p rnd)) (target_maps self ! nat idx)] \<and>
          list_all (list_all (list_all isfinite)) it \<and>
          list_all (list_all (list_all isfinite)) tt) \<and>
         (\<exists>hit htt. CAMELSDatasetHDF5_getitem g32 rnd hfs h j = (Inr (hit, htt), h) \<and>
          CAMELSDatasetHDF5_getitem g32 rnd hfs
              (snd (CAMELSDatasetHDF5_getitem g32 rnd hfs h j)) j = (Inr (hit, htt), h) \<and>
          hit = [map (map (log1p rnd)) (astype_map g32 (a ! nat j))] \<and>
          htt = [map (map (log1p rnd)) (astype_map g32 (b ! nat j))] \<and>
          list_all (list_all (list_all isfinite)) hit \<and>
          list_all (list_all (list_all isfinite)) htt)"
proof
  from npy_getitem_value [OF init idx ni nt, of rnd]
  show "\<exists>it tt. CAMELSDataset_getitem rnd self idx = (Inr (it, tt), self) \<and>
          CAMELSDataset_getitem rnd (snd (CAMELSDataset_getitem rnd self idx)) idx
            = (Inr (it, tt), self) \<and>
          it = [map (map (log1p rnd)) (input_maps self ! nat idx)] \<and>
          tt = [map (map (log1p rnd)) (target_maps self ! nat idx)] \<and>
          list_all (list_all (list_all isfinite)) it \<and>
          list_all (list_all (list_all isfinite)) tt"
    by blast
next
  let ?im = "astype_map g32 (a ! nat j)" and ?tm = "astype_map g32 (b ! nat j)"
  from hdf5_init_D [OF hinit] ha have n: "n_simulations h = length a" by auto
  have ja: "nat j < length a" using j(1) j(2) n by (simp add: CAMELSDatasetHDF5_len_def)
  have jb: "nat j < length b" using j(1) j(3) by simp
  from na ja have "list_all (list_all nonneg_number) (astype g32 a ! nat j)"
    by (simp add: list_all_length astype_def)
  then have pa: "list_all (list_all nonneg_number) ?im"
    using ja by (simp add: astype_def astype_map_def)
  from nb jb have "list_all (list_all nonneg_number) (astype g32 b ! nat j)"
    by (simp add: list_all_length astype_def)
  then have pb: "list_all (list_all nonneg_number) ?tm"
    using jb by (simp add: astype_def astype_map_def)
  from normalize_pair_finite [OF pa pb, of rnd] have
    np: "normalize_pair rnd ?im ?tm =
           ([map (map (log1p rnd)) ?im], [map (map (log1p rnd)) ?tm])" and
    f1: "list_all (list_all (list_all isfinite)) (fst (normalize_pair rnd ?im ?tm))" and
    f2: "list_all (list_all (list_all isfinite)) (snd (normalize_pair rnd ?im ?tm))"
    by blast+
  have f1': "list_all (list_all (list_all isfinite)) [map (map (log1p rnd)) ?im]"
    using f1 by (simp only: np fst_conv)
  have f2': "list_all (list_all (list_all isfinite)) [map (map (log1p rnd)) ?tm]"
    using f2 by (simp only: np snd_conv)
  have v: "CAMELSDatasetHDF5_getitem g32 rnd hfs h j =
      (Inr ([map (map (log1p rnd)) ?im], [map (map (log1p rnd)) ?tm]), h)"
    using hdf5_getitem_value [OF hinit ha hb j, of rnd] by (simp only: np)
  have v2: "CAMELSDatasetHDF5_getitem g32 rnd hfs
      (snd (CAMELSDatasetHDF5_getitem g32 rnd hfs h j)) j =
      (Inr ([map (map (log1p rnd)) ?im], [map (map (log1p rnd)) ?tm]), h)"
    by (simp only: v snd_conv)
  from v v2 f1' f2'
  show "\<exists>hit htt. CAMELSDatasetHDF5_getitem g32 rnd hfs h j = (Inr (hit, htt), h) \<and>
          CAMELSDatasetHDF5_getitem g32 rnd hfs
              (snd (CAMELSDatasetHDF5_getitem g32 rnd hfs h j)) j = (Inr (hit, htt), h) \<and>
          hit = [map (map (log1p rnd)) (astype_map g32 (a ! nat j))] \<and>
          htt = [map (map (log1p rnd)) (astype_map g32 (b ! nat j))] \<and>
          list_all (list_all (list_all isfinite)) hit \<and>
          list_all (list_all (list_all isfinite)) htt"
    by blast
qed

lemma h5_demo_open:
  "h5_open_dataset h5_demo_fs (input_path (h5_demo c)) ''Maps_Mcdm''
     = Inr [[[Fin 0, Fin 1]], [[Fin 2, Fin 0]]]"
  "h5_open_dataset h5_demo_fs (target_path (h5_demo c)) ''Maps_Mtot''
     = Inr [[[Fin 1, Fin 1]], [[Fin 3, Fin 0]]]"
  by (simp_all add: h5_open_dataset_def h5_demo_fs_def h5_demo_def)

theorem getitem_transform_pure_witness:
  "CAMELSDataset_getitem (\<lambda>x. x) npy_demo 1 =
     (Inr ([[[Fin (ln 3), Fin 0]]], [[[Fin (ln 4), Fin 0]]]), npy_demo)
   \<and> list_all (list_all (list_all isfinite)) [[[Fin (ln 3), Fin 0]]]
   \<and> CAMELSDatasetHDF5_getitem (\<lambda>x. x) (\<lambda>x. x) h5_demo_fs (h5_demo False) 1 =
       (Inr ([[[Fin (ln 3), Fin 0]]], [[[Fin (ln 4), Fin 0]]]), h5_demo False)"
  using getitem_transform_pure [where idx = 1 and j = 1 and rnd = "\<lambda>x. x" and c = False,
      OF npy_demo_init _ _ _ _ h5_demo_init h5_demo_open]
  by (simp add: npy_demo_def CAMELSDataset_len_def CAMELSDatasetHDF5_len_def h5_demo_def
      astype_def astype_map_def)

section \<open>Properties of the export\<close>

lemma demo_MODEL_NAME: "MODEL_NAME demo_cfg = ''unet_illustristng_cv_v1.pth''"
  by (simp add: MODEL_NAME_def demo_cfg_def lower_def lower_char_def)

lemma demo_WEIGHTS_DIR: "WEIGHTS_DIR demo_cfg = ''/repo/weights''"
  by (simp add: WEIGHTS_DIR_def path_join_def demo_cfg_def)

lemma demo_weights_path:
  "path_join (WEIGHTS_DIR demo_cfg) (MODEL_NAME demo_cfg) =
     ''/repo/weights/unet_illustristng_cv_v1.pth''"
  by (simp add: demo_MODEL_NAME demo_WEIGHTS_DIR path_join_def)

text \<open>
  C2, as the claim states it: the export of a missing checkpoint raises. It does not:
  over an empty weights directory the function returns normally.
\<close>

theorem export_missing_checkpoint_returns:
  "fst (export_model_to_torchscript demo_cfg empty_world) = Inr ()"
  by (simp add: export_model_to_torchscript_def Let_def print_def demo_weights_path
      empty_world_def)

text \<open>
  C2, amended. When the weights file does not exist, the export prints a message that
  names the expected path and the advice to run the training first, then returns
  normally; no file is written or changed, no file-system operation is attempted and
  the random generator is not used.
\<close>

theorem export_missing_checkpoint:
  assumes "files w (path_join (WEIGHTS_DIR cfg) (MODEL_NAME cfg)) = None"
  shows "export_model_to_torchscript cfg w =
      (Inr (), w\<lparr>stdout := stdout w @
         [Str ''--- Starting Model Export to TorchScript ---'',
          Str (''Error: Trained weights file not found at ''
                 @ quoted (path_join (WEIGHTS_DIR cfg) (MODEL_NAME cfg))),
          Str ''Please run train.py to train and save the model first.'']\<rparr>)"
  using assms by (simp add: export_model_to_torchscript_def Let_def print_def)

theorem export_missing_checkpoint_witness:
  "export_model_to_torchscript demo_cfg empty_world =
     (Inr (), \<lparr>files = Map.empty,
        stdout = [Str ''--- Starting Model Export to TorchScript ---'',
          Str (''Error: Trained weights file not found at ''
                 @ quoted ''/repo/weights/unet_illustristng_cv_v1.pth''),
          Str ''Please run train.py to train and save the model first.''],
        io = [], gen = 0\<rparr>)"
  using export_missing_checkpoint [of empty_world demo_cfg]
  by (simp add: demo_weights_path empty_world_def)

section \<open>Properties of the split\<close>

lemma bit_length_le: "n < 2 ^ m \<Longrightarrow> bit_length n \<le> m"
proof (induction n arbitrary: m rule: bit_length.induct)
  case (1 n)
  show ?case
  proof (cases "n = 0")
    case True
    then show ?thesis by (simp add: bit_length.simps)
  next
    case False
    with "1.prems" obtain m' where m: "m = Suc m'"
      by (cases m) auto
    with "1.prems" have "n div 2 < 2 ^ m'" by auto
    with "1.IH" [OF False] have "bit_length (n div 2) \<le> m'" .
    with False m show ?thesis by (simp add: bit_length.simps [of n])
  qed
qed

lemma ten_mantissa: "10 * tenth_mantissa = 2 ^ 55 + 2"
  by (simp add: tenth_mantissa_def)

lemma int_of_times_tenth_eq:
  assumes n: "n < 2 ^ 48"
  shows "int_of_times_tenth n = n div 10"
proof -
  define p where "p = n * tenth_mantissa"
  define s where "s = bit_length p - 53"
  define q where "q = p div 2 ^ s"
  define r where "r = p mod 2 ^ s"
  define q' where "q' = (if 2 ^ s < 2 * r \<or> (2 * r = 2 ^ s \<and> odd q) then q + 1 else q)"
  define k where "k = n div 10"
  have res: "int_of_times_tenth n = (q' * 2 ^ s) div 2 ^ 55"
    by (simp add: int_of_times_tenth_def Let_def p_def s_def q_def r_def q'_def)
  have tm: "tenth_mantissa < 2 ^ 52" by (simp add: tenth_mantissa_def)
  have "p < 2 ^ 48 * 2 ^ 52"
    unfolding p_def using n tm by (rule mult_strict_mono) simp_all
  then have "p < 2 ^ 100" by simp
  then have "bit_length p \<le> 100" by (rule bit_length_le)
  then have s47: "s \<le> 47" by (simp add: s_def)
  have p10: "10 * p = n * 2 ^ 55 + 2 * n"
    using ten_mantissa by (simp add: p_def algebra_simps)
  have nk: "10 * k \<le> n" "n < 10 * k + 10" by (simp_all add: k_def)
  have lo_p: "k * 2 ^ 55 \<le> p"
  proof -
    have "10 * (k * 2 ^ 55) \<le> n * 2 ^ 55" using nk(1) by simp
    also have "\<dots> \<le> 10 * p" by (simp add: p10)
    finally show ?thesis by simp
  qed
  have pow: "(2::nat) ^ 55 = 2 ^ (55 - s) * 2 ^ s"
    using s47 by (simp add: power_add [symmetric])
  have "k * 2 ^ (55 - s) \<le> q"
  proof -
    have "k * 2 ^ (55 - s) * 2 ^ s \<le> p" using lo_p pow by (simp add: mult.assoc)
    then show ?thesis unfolding q_def by (simp add: less_eq_div_iff_mult_less_eq)
  qed
  then have "k * 2 ^ (55 - s) * 2 ^ s \<le> q * 2 ^ s" by (rule mult_le_mono1)
  moreover have "k * 2 ^ (55 - s) * 2 ^ s = k * 2 ^ 55"
    by (simp only: mult.assoc pow [symmetric])
  ultimately have lo_q: "k * 2 ^ 55 \<le> q * 2 ^ s" by (simp only:)
  have qq: "q \<le> q'" "q' \<le> q + 1" by (simp_all add: q'_def)
  have lo: "k * 2 ^ 55 \<le> q' * 2 ^ s"
    using lo_q qq(1) by (meson le_trans mult_le_mono1)
  have "q * 2 ^ s \<le> p" by (simp add: q_def)
  have s2: "(2::nat) ^ s \<le> 2 ^ 47" by (rule power_increasing) (use s47 in simp_all)
  have "q' * 2 ^ s \<le> (q + 1) * 2 ^ s" using qq(2) by (rule mult_le_mono1)
  also have "\<dots> = q * 2 ^ s + 2 ^ s" by (simp add: algebra_simps)
  also have "\<dots> \<le> p + 2 ^ 47" using \<open>q * 2 ^ s \<le> p\<close> s2 by (rule add_mono)
  finally have up1: "q' * 2 ^ s \<le> p + 2 ^ 47" .
  have "10 * (p + 2 ^ 47) = n * 2 ^ 55 + 2 * n + 10 * 2 ^ 47" by (simp add: p10)
  also have "\<dots> < (10 * k + 10) * 2 ^ 55"
  proof -
    have a: "n * 2 ^ 55 \<le> (10 * k + 9) * 2 ^ 55" using nk(2) by simp
    have b: "2 * n + 10 * 2 ^ 47 < (2::nat) ^ 55" using n by simp
    have "n * 2 ^ 55 + (2 * n + 10 * 2 ^ 47) < (10 * k + 9) * 2 ^ 55 + 2 ^ 55"
      using a b by (rule add_le_less_mono)
    then show ?thesis by (simp add: algebra_simps)
  qed
  finally have "p + 2 ^ 47 < (k + 1) * 2 ^ 55" by simp
  with up1 have up: "q' * 2 ^ s < 2 ^ 55 * Suc k" by (simp add: mult.commute)
  have "(q' * 2 ^ s) div 2 ^ 55 = k"
    using lo up by (intro div_nat_eqI) (simp_all add: mult.commute)
  then show ?thesis by (simp add: res k_def)
qed

lemma is_permutation_length: "is_permutation p n \<Longrightarrow> length p = n"
  unfolding is_permutation_def using distinct_card [of p] by simp

lemma is_permutation_bound:
  "is_permutation p n \<Longrightarrow> list_all (\<lambda>j. j < n) p"
  by (simp add: is_permutation_def list_all_iff)

lemma demo_randperm_ok: "randperm_ok (demo_torch f)"
  by (simp add: randperm_ok_def is_permutation_def demo_torch_def)

lemma random_split_sizes_and_cover:
  assumes n: "n < 2 ^ 48"
    and perm: "is_permutation (fst (randperm T g n)) n"
  shows "\<exists>tr va g'.
      random_split T n (n - int_of_times_tenth n) (int_of_times_tenth n) g = (Inr (tr, va), g')
      \<and> length va = n div 10 \<and> length tr = n - n div 10
      \<and> set tr \<inter> set va = {} \<and> distinct (tr @ va) \<and> set (tr @ va) = {0..<n}"
proof -
  obtain p g' where rp: "randperm T g n = (p, g')" by (cases "randperm T g n")
  with perm have pp: "is_permutation p n" by simp
  then have lp: "length p = n" by (rule is_permutation_length)
  let ?v = "n div 10" and ?t = "n - n div 10"
  have v: "int_of_times_tenth n = ?v" using n by (rule int_of_times_tenth_eq)
  have tv: "?t + ?v = n" by simp
  let ?tr = "take ?t p" and ?va = "take ?v (drop ?t p)"
  have va: "?va = drop ?t p" using lp by simp
  have app: "?tr @ ?va = p" by (simp only: va append_take_drop_id)
  have rs: "random_split T n ?t ?v g = (Inr (?tr, ?va), g')"
    by (simp add: random_split_def rp)
  have d: "distinct (?tr @ ?va)" "set (?tr @ ?va) = {0..<n}"
    using pp by (simp_all only: app is_permutation_def)
  from d(1) have dj: "set ?tr \<inter> set ?va = {}" by (simp only: distinct_append)
  have "length ?va = ?v" "length ?tr = ?t" using lp by simp_all
  with rs d dj show ?thesis by (simp only: v) blast
qed

section \<open>Properties of the epoch loop\<close>

lemma printed_val_losses_append:
  "printed_val_losses (xs @ ys) = printed_val_losses xs @ printed_val_losses ys"
  by (induction xs rule: printed_val_losses.induct) simp_all



lemma train_phase_frame:
  "train_phase T ds L m w = (r, w') \<Longrightarrow>
     files w' = files w \<and> stdout w' = stdout w \<and> io w' = io w"
  by (auto simp: train_phase_def split: prod.splits sum.splits)








lemma chunks_Nil: "chunks n [] = []"
  by (simp add: chunks.simps [of n "[]"])

lemma chunks_0: "chunks 0 xs = []"
  by (simp add: chunks.simps [of 0 xs])

lemma chunks_step: "0 < n \<Longrightarrow> xs \<noteq> [] \<Longrightarrow> chunks n xs = take n xs # chunks n (drop n xs)"
  by (simp add: chunks.simps [of n xs])

lemma chunks_concat: "0 < n \<Longrightarrow> concat (chunks n xs) = xs"
proof (induction n xs rule: chunks.induct)
  case (1 n xs)
  show ?case
  proof (cases "xs = []")
    case True
    then show ?thesis by (simp add: chunks_Nil)
  next
    case False
    with "1.prems" have "concat (chunks n (drop n xs)) = drop n xs"
      using "1.IH" by simp
    with False "1.prems" show ?thesis by (simp add: chunks_step)
  qed
qed

lemma chunks_list_all:
  assumes "list_all P xs"
  shows "list_all (list_all P) (chunks n xs)"
proof (cases "n = 0")
  case True
  then show ?thesis by (simp add: chunks_0)
next
  case False
  then have "concat (chunks n xs) = xs" by (simp add: chunks_concat)
  with assms have "list_all P (concat (chunks n xs))" by simp
  then show ?thesis by (simp add: list_all_iff)
qed

lemma fetch_batch_ok:
  assumes "length (target_maps ds) = length (input_maps ds)"
    and "list_all (\<lambda>i. i < length (input_maps ds)) sub"
    and "list_all (\<lambda>j. j < length sub) b"
  shows "\<exists>r. fetch_batch T ds sub b = Inr r"
  using assms(3)
proof (induction b)
  case Nil
  then show ?case by simp
next
  case (Cons j js)
  then have j: "j < length sub" and js: "list_all (\<lambda>j. j < length sub) js" by simp_all
  from Cons.IH [OF js] obtain r where r: "fetch_batch T ds sub js = Inr r" by blast
  have g: "getidx sub (int j) = Inr (sub ! j)" using j by (simp add: getidx_def)
  from assms(2) j have i: "sub ! j < length (input_maps ds)" by (simp add: list_all_length)
  have "\<exists>s. fst (CAMELSDataset_getitem (log1p_rnd T) ds (int (sub ! j))) = Inr s"
    using i assms(1) by (simp add: CAMELSDataset_getitem_def getidx_def)
  then show ?case using g r by auto
qed

lemma train_batches_ok:
  assumes "length (target_maps ds) = length (input_maps ds)"
    and "list_all (\<lambda>i. i < length (input_maps ds)) sub"
    and "list_all (list_all (\<lambda>j. j < length sub)) batches"
  shows "\<exists>m' rl'. train_batches T ds sub batches m rl = Inr (m', rl')"
  using assms(3)
proof (induction batches arbitrary: m rl)
  case Nil
  then show ?case by simp
next
  case (Cons b bs)
  then have b: "list_all (\<lambda>j. j < length sub) b"
    and bs: "list_all (list_all (\<lambda>j. j < length sub)) bs" by simp_all
  from fetch_batch_ok [OF assms(1) assms(2) b] obtain r where
    r: "fetch_batch T ds sub b = Inr r" by blast
  obtain m1 l where s: "train_step T m r = (m1, l)" by (cases "train_step T m r")
  from Cons.IH [OF bs] show ?case by (simp add: r s)
qed

lemma train_phase_ok:
  assumes rp: "randperm_ok T"
    and len: "length (target_maps ds) = length (input_maps ds)"
    and sub: "list_all (\<lambda>i. i < length (input_maps ds)) (dl_subset L)"
    and ne: "dl_subset L \<noteq> []" and bs: "0 < dl_batch_size L" and sh: "dl_shuffle L"
  shows "\<exists>m' a w'. train_phase T ds L m w = (Inr (m', a), w')"
proof -
  obtain p g' where p: "randperm T (gen w) (length (dl_subset L)) = (p, g')"
    by (cases "randperm T (gen w) (length (dl_subset L))")
  from rp have "is_permutation (fst (randperm T (gen w) (length (dl_subset L)))) (length (dl_subset L))"
    unfolding randperm_ok_def by blast
  with p have "list_all (\<lambda>j. j < length (dl_subset L)) p"
    by (simp add: is_permutation_bound)
  then have "list_all (list_all (\<lambda>j. j < length (dl_subset L))) (chunks (dl_batch_size L) p)"
    by (rule chunks_list_all)
  from train_batches_ok [OF len sub this, where T = T and m = m and rl = "Fin 0"] obtain m' rl where
    tb: "train_batches T ds (dl_subset L) (chunks (dl_batch_size L) p) m (Fin 0) = Inr (m', rl)"
    by blast
  have "0 < length (dl_subset L)" using ne by simp
  then have "dl_batch_size L \<le> length (dl_subset L) + dl_batch_size L - 1" by linarith
  then have ll: "0 < loader_len L"
    unfolding loader_len_def using bs by (simp add: div_greater_zero_iff)
  show ?thesis
    using ll by (simp add: train_phase_def loader_iter_def sh p tb py_fdiv_def)
qed

lemma validate_phase_empty:
  assumes "0 < bs"
  shows "validate_phase T ds \<lparr>dl_subset = [], dl_batch_size = bs, dl_shuffle = False\<rparr> m w
           = (Inl ZeroDivisionError, w)"
  using assms
  by (simp add: validate_phase_def loader_iter_def chunks_Nil py_fdiv_def loader_len_def)

lemma chunks_single: "chunks 4 [x] = [[x]]"
  by (simp add: chunks.simps [of 4 "[x]"] chunks.simps [of 4 "[]"])




lemma demo_best_path: "best_model_path demo_cfg = ''/repo/weights/best_unet_illustristng_cv_v1.pth''"
  by (simp add: best_model_path_def demo_MODEL_NAME demo_WEIGHTS_DIR path_join_def)

lemma demo_NUM_EPOCHS: "NUM_EPOCHS demo_cfg = 2"
  by (simp add: demo_cfg_def)


lemma train_setup_prints_no_losses:
  assumes "train_setup T cfg data w0 = (Inr x, w2)"
  shows "printed_val_losses (stdout w2) = printed_val_losses (stdout w0)"
  using assms unfolding train_setup_def Let_def
  by (auto simp: print_def printed_val_losses_append split: sum.splits prod.splits)





section \<open>Runs over short datasets\<close>

lemma demo_DATA_DIR: "DATA_DIR demo_cfg = ''/repo/data''"
  by (simp add: DATA_DIR_def path_join_def demo_cfg_def)

lemma demo_SUITE: "SUITE demo_cfg = ''IllustrisTNG''" "DATASET_TYPE demo_cfg = ''CV''"
  "BATCH_SIZE demo_cfg = 4" "DEVICE demo_cfg = ''cpu''"
  by (simp_all add: demo_cfg_def)

lemma demo_data_init:
  "CAMELSDataset_init (astype_f32 (demo_torch f)) (demo_data n x) (DATA_DIR demo_cfg)
     (SUITE demo_cfg) (DATASET_TYPE demo_cfg) = Inr (demo_dataset n x)"
  by (simp add: demo_DATA_DIR demo_SUITE CAMELSDataset_init_def demo_data_def demo_dataset_def
      path_join_def npy_input_filename_def npy_target_filename_def astype_def demo_torch_def
      Let_def)

lemma short_dataset_run:
  assumes init: "CAMELSDataset_init (astype_f32 T) data (DATA_DIR cfg) (SUITE cfg)
                   (DATASET_TYPE cfg) = Inr ds"
    and small: "CAMELSDataset_len ds < 10"
    and bs: "0 < BATCH_SIZE cfg" and ep: "0 < NUM_EPOCHS cfg"
    and rp: "randperm_ok T"
  shows "fst (train_model T cfg data w0) =
           (if CAMELSDataset_len ds = 0 then Inl (Setup, ValueError)
            else Inl (ValidatePhase 0, ZeroDivisionError)) \<and>
         files (snd (train_model T cfg data w0)) = files w0"
proof -
  let ?n = "CAMELSDataset_len ds"
  define w1 where "w1 = print (Str ''Loading dataset...'')
                 (print (Str ''--- Weights & Biases tracking is enabled ---'')
                    (print (Str (''--- Starting Training on '' @ DEVICE cfg @ '' ---'')) w0))"
  have f1: "files w1 = files w0" by (simp add: w1_def print_def)
  have "?n < 2 ^ 48" using small by simp
  then have "int_of_times_tenth ?n = ?n div 10" by (rule int_of_times_tenth_eq)
  then have v: "int_of_times_tenth ?n = 0" using small by simp
  obtain p g where p: "randperm T (gen w1) ?n = (p, g)" by (cases "randperm T (gen w1) ?n")
  from rp have "is_permutation (fst (randperm T (gen w1) ?n)) ?n"
    unfolding randperm_ok_def by blast
  with p have pp: "is_permutation p ?n" by simp
  then have lp: "length p = ?n" by (rule is_permutation_length)
  have split: "random_split T ?n ?n 0 (gen w1) = (Inr (p, []), g)"
    using lp by (simp add: random_split_def p)
  have setup_eq: "train_setup T cfg data w0 =
      (case DataLoader p (BATCH_SIZE cfg) True of
         Inl e \<Rightarrow> (Inl (Setup, e), w1\<lparr>gen := g\<rparr>)
       | Inr train_loader \<Rightarrow>
           (case DataLoader [] (BATCH_SIZE cfg) False of
              Inl e \<Rightarrow> (Inl (Setup, e), w1\<lparr>gen := g\<rparr>)
            | Inr val_loader \<Rightarrow>
                (case UNet T g of
                   (m0, g') \<Rightarrow>
                     (Inr (ds, train_loader, val_loader, m0),
                      print (Str ''--- Entering Training Loop ---'')
                        (print (Data_loaded_line ?n 0) (w1\<lparr>gen := g'\<rparr>))))))"
    unfolding train_setup_def Let_def w1_def [symmetric]
    by (simp only: init v split sum.case prod.case diff_zero)
  show ?thesis
  proof (cases "?n = 0")
    case True
    with lp have "p = []" by simp
    then have "train_setup T cfg data w0 = (Inl (Setup, ValueError), w1\<lparr>gen := g\<rparr>)"
      by (simp add: setup_eq DataLoader_def)
    then show ?thesis using True f1 by (simp add: train_model_def)
  next
    case False
    with lp have ne: "p \<noteq> []" by auto
    obtain m0 g' where u: "UNet T g = (m0, g')" by (cases "UNet T g")
    let ?trl = "\<lparr>dl_subset = p, dl_batch_size = BATCH_SIZE cfg, dl_shuffle = True\<rparr>"
    let ?vl = "\<lparr>dl_subset = [], dl_batch_size = BATCH_SIZE cfg, dl_shuffle = False\<rparr>"
    define w2 where "w2 = print (Str ''--- Entering Training Loop ---'')
                 (print (Data_loaded_line ?n 0) (w1\<lparr>gen := g'\<rparr>))"
    have f2: "files w2 = files w0" by (simp add: w2_def print_def f1)
    have stp: "train_setup T cfg data w0 = (Inr (ds, ?trl, ?vl, m0), w2)"
      using ne bs by (simp add: setup_eq DataLoader_def u w2_def)
    have sub: "list_all (\<lambda>i. i < length (input_maps ds)) (dl_subset ?trl)"
      using is_permutation_bound [OF pp] by (simp add: CAMELSDataset_len_def)
    from train_phase_ok [OF rp npy_init_lengths [OF init] sub, where m = m0 and w = w2]
    obtain m' a w' where tp: "train_phase T ds ?trl m0 w2 = (Inr (m', a), w')"
      using ne bs by auto
    have f3: "files w' = files w0" using train_phase_frame [OF tp] f2 by simp
    have vp: "validate_phase T ds ?vl m' w' = (Inl ZeroDivisionError, w')"
      using bs by (rule validate_phase_empty)
    have re: "run_epoch T cfg ds ?trl ?vl 0 \<lparr>model = m0, best_val_loss = PInf\<rparr> w2 =
        (Inl (ValidatePhase 0, ZeroDivisionError), w')"
      by (simp add: run_epoch_def tp vp)
    have "[0..<NUM_EPOCHS cfg] = 0 # [1..<NUM_EPOCHS cfg]"
      using ep by (simp add: upt_conv_Cons)
    then have "epoch_loop T cfg ds ?trl ?vl [0..<NUM_EPOCHS cfg]
        \<lparr>model = m0, best_val_loss = PInf\<rparr> w2 = (Inl (ValidatePhase 0, ZeroDivisionError), w')"
      by (simp add: re)
    then show ?thesis using False f3 by (simp add: train_model_def stp)
  qed
qed

text \<open>
  C10, as the claim states it: every dataset shorter than 10 fails in the validation
  phase of the first epoch. The empty dataset does not get that far: the training
  loader refuses it, and the run ends in the setup with \<open>ValueError\<close>.
\<close>

theorem empty_dataset_fails_in_setup:
  "fst (train_model (demo_torch real) demo_cfg (demo_data 0 0) empty_world)
     = Inl (Setup, ValueError)"
  using short_dataset_run [OF demo_data_init, of 0 0 real empty_world]
  by (simp add: demo_randperm_ok demo_SUITE demo_NUM_EPOCHS CAMELSDataset_len_def
      demo_dataset_def)

text \<open>
  C10, amended. With at least one epoch configured, a positive batch size and a
  generator that returns permutations, a run over a dataset of length 1 to 9 has an
  empty validation subset and raises \<open>ZeroDivisionError\<close> in the validation phase of
  the first epoch; a run over an empty dataset raises \<open>ValueError\<close> while the training
  loader is built. No run over fewer than 10 samples completes, and none writes a
  file.
\<close>

theorem short_dataset_never_completes:
  assumes init: "CAMELSDataset_init (astype_f32 T) data (DATA_DIR cfg) (SUITE cfg)
                   (DATASET_TYPE cfg) = Inr ds"
    and small: "CAMELSDataset_len ds < 10"
    and bs: "0 < BATCH_SIZE cfg" and ep: "0 < NUM_EPOCHS cfg"
    and rp: "randperm_ok T"
  shows "fst (train_model T cfg data w0) =
           (if CAMELSDataset_len ds = 0 then Inl (Setup, ValueError)
            else Inl (ValidatePhase 0, ZeroDivisionError)) \<and>
         files (snd (train_model T cfg data w0)) = files w0"
  using assms by (rule short_dataset_run)

theorem short_dataset_never_completes_witness:
  "fst (train_model (demo_torch real) demo_cfg (demo_data 9 0) empty_world)
     = Inl (ValidatePhase 0, ZeroDivisionError) \<and>
   files (snd (train_model (demo_torch real) demo_cfg (demo_data 9 0) empty_world)) = Map.empty"
  using short_dataset_never_completes [OF demo_data_init, of 9 0 real empty_world]
  by (simp add: demo_randperm_ok demo_SUITE demo_NUM_EPOCHS CAMELSDataset_len_def demo_dataset_def
      empty_world_def)

section \<open>Whole runs over ten samples\<close>

lemma upt_10: "[0..<10] = [0, 1, 2, 3, 4, 5, 6, 7, 8, 9]"
  by (simp add: upt_rec)

lemma upt_9: "[0..<9] = [0, 1, 2, 3, 4, 5, 6, 7, 8]"
  by (simp add: upt_rec)

lemma tenth_10: "int_of_times_tenth 10 = 1"
  using int_of_times_tenth_eq [of 10] by simp

lemma demo_setup:
  "train_setup (demo_torch f) demo_cfg (demo_data 10 0) w =
     (Inr (demo_dataset 10 0, demo10_train_loader, demo10_val_loader, 0),
      w\<lparr>stdout := stdout w @
           [Str ''--- Starting Training on cpu ---'',
            Str ''--- Weights & Biases tracking is enabled ---'',
            Str ''Loading dataset...'',
            Data_loaded_line 9 1,
            Str ''--- Entering Training Loop ---''],
        gen := Suc (Suc (gen w))\<rparr>)"
  unfolding train_setup_def Let_def demo_data_init
  by (simp add: CAMELSDataset_len_def demo_dataset_def tenth_10 random_split_def
      demo_torch_def upt_10 DataLoader_def demo_SUITE print_def demo10_train_loader_def
      demo10_val_loader_def)

lemma chunks_9: "chunks 4 [a, b, c, d, e, f, g, h, i] = [[a, b, c, d], [e, f, g, h], [i]]"
  by (simp add: chunks_step chunks_Nil)

lemma demo10_getitem:
  "0 \<le> idx \<Longrightarrow> idx < 10 \<Longrightarrow>
     fst (CAMELSDataset_getitem (\<lambda>x. x) (demo_dataset 10 0) idx)
       = Inr ([[[Fin 0]]], [[[Fin 0]]])"
  by (simp add: CAMELSDataset_getitem_def demo_dataset_def getidx_def normalize_pair_def
      log1p_map_def unsqueeze0_def)

lemma demo10_train_phase_Suc:
  "train_phase (demo_torch f) (demo_dataset 10 0) demo10_train_loader m w =
     (Inr (Suc (Suc (Suc m)), Fin 1), w\<lparr>gen := Suc (gen w)\<rparr>)"
  by (simp add: train_phase_def loader_iter_def demo10_train_loader_def demo_torch_def upt_9
      chunks_9 getidx_def demo10_getitem py_fdiv_def loader_len_def)

lemma demo10_train_phase:
  "train_phase (demo_torch f) (demo_dataset 10 0) demo10_train_loader m w =
     (Inr (m + 3, Fin 1), w\<lparr>gen := Suc (gen w)\<rparr>)"
  by (simp add: demo10_train_phase_Suc)

lemma demo10_validate_phase:
  "validate_phase (demo_torch f) (demo_dataset 10 0) demo10_val_loader m w =
     (Inr (Fin (f m)), w)"
  by (simp add: validate_phase_def loader_iter_def demo10_val_loader_def demo_torch_def
      chunks_single getidx_def demo10_getitem py_fdiv_def loader_len_def)

lemma demo_setup_w2:
  "train_setup (demo_torch f) demo_cfg (demo_data 10 0) (empty_world\<lparr>io := sched\<rparr>) =
     (Inr (demo_dataset 10 0, demo10_train_loader, demo10_val_loader, 0), demo_w2 sched)"
  by (simp add: demo_setup demo_w2_def empty_world_def)

lemma upt_2: "[0..<2] = [0, 1]"
  by (simp add: upt_rec)

text \<open>Rising validation losses: only the first epoch saves.\<close>

lemma demo_loop_rising:
  "epoch_loop (demo_torch real) demo_cfg (demo_dataset 10 0) demo10_train_loader
       demo10_val_loader [0..<NUM_EPOCHS demo_cfg] \<lparr>model = 0, best_val_loss = PInf\<rparr>
       (demo_w2 [Completes, Completes, Completes, FailsMidWrite]) =
     (Inr \<lparr>model = 6, best_val_loss = Fin 3\<rparr>,
      \<lparr>files = [''/repo/weights/best_unet_illustristng_cv_v1.pth'' \<mapsto> Checkpoint 3],
       stdout = [Str ''--- Starting Training on cpu ---'',
            Str ''--- Weights & Biases tracking is enabled ---'',
            Str ''Loading dataset...'',
            Data_loaded_line 9 1,
            Str ''--- Entering Training Loop ---'',
            Epoch_line 1 2 (Fin 1) (Fin 3), New_best_line (Fin 3),
            Epoch_line 2 2 (Fin 1) (Fin 6)],
       io = [Completes, FailsMidWrite], gen = 4\<rparr>)"
  by (simp add: demo_NUM_EPOCHS upt_2 run_epoch_def demo10_train_phase demo10_validate_phase
      checkpoint_decision_def save_best_def os_makedirs_def torch_save_def write_file_def
      print_def demo_best_path demo_WEIGHTS_DIR demo_w2_def)



section \<open>Determinism of the split\<close>

lemma train_setup_split:
  "split_of (fst (train_setup T cfg data w)) =
     (case CAMELSDataset_init (astype_f32 T) data (DATA_DIR cfg) (SUITE cfg) (DATASET_TYPE cfg) of
        Inl e \<Rightarrow> Inl (Setup, e)
      | Inr ds \<Rightarrow>
          (case fst (random_split T (CAMELSDataset_len ds)
                       (CAMELSDataset_len ds - int_of_times_tenth (CAMELSDataset_len ds))
                       (int_of_times_tenth (CAMELSDataset_len ds)) (gen w)) of
             Inl e \<Rightarrow> Inl (Setup, e)
           | Inr (tr, va) \<Rightarrow>
               (case DataLoader tr (BATCH_SIZE cfg) True of
                  Inl e \<Rightarrow> Inl (Setup, e)
                | Inr trl \<Rightarrow>
                    (case DataLoader va (BATCH_SIZE cfg) False of
                       Inl e \<Rightarrow> Inl (Setup, e)
                     | Inr vl \<Rightarrow> Inr (tr, va)))))"
proof -
  define w1 where "w1 = print (Str ''Loading dataset...'')
                 (print (Str ''--- Weights & Biases tracking is enabled ---'')
                    (print (Str (''--- Starting Training on '' @ DEVICE cfg @ '' ---'')) w))"
  have g: "gen w1 = gen w" by (simp add: w1_def print_def)
  show ?thesis
    unfolding train_setup_def Let_def w1_def [symmetric] g
    by (auto simp: split_of_def DataLoader_def split: sum.splits prod.splits if_splits)
qed

text \<open>
  C3. The split that \<open>train_model\<close> makes is a function of the data directory and of the
  state of the random generator (the seed) alone: two runs over the same data that
  start from the same generator state hand the same training and validation index
  lists to their loaders, whatever else differs between the two processes (files,
  output so far, pending file-system outcomes).
\<close>

theorem split_deterministic:
  assumes "gen w = gen w'"
  shows "split_of (fst (train_setup T cfg data w)) = split_of (fst (train_setup T cfg data w'))"
  by (simp only: train_setup_split assms)

theorem split_deterministic_witness:
  "split_of (fst (train_setup (demo_torch real) demo_cfg (demo_data 10 0) empty_world)) =
   split_of (fst (train_setup (demo_torch real) demo_cfg (demo_data 10 0)
      (empty_world\<lparr>files := [''/repo/weights/old'' \<mapsto> Partial],
                    stdout := [Str ''earlier output''], io := [FailsBefore]\<rparr>)))
   \<and> split_of (fst (train_setup (demo_torch real) demo_cfg (demo_data 10 0) empty_world)) =
       Inr ([9, 8, 7, 6, 5, 4, 3, 2, 1], [0])"
proof
  show "split_of (fst (train_setup (demo_torch real) demo_cfg (demo_data 10 0) empty_world)) =
   split_of (fst (train_setup (demo_torch real) demo_cfg (demo_data 10 0)
      (empty_world\<lparr>files := [''/repo/weights/old'' \<mapsto> Partial],
                    stdout := [Str ''earlier output''], io := [FailsBefore]\<rparr>)))"
    by (rule split_deterministic) (simp add: empty_world_def)
  show "split_of (fst (train_setup (demo_torch real) demo_cfg (demo_data 10 0) empty_world)) =
       Inr ([9, 8, 7, 6, 5, 4, 3, 2, 1], [0])"
    by (simp add: demo_setup split_of_def demo10_train_loader_def demo10_val_loader_def)
qed

section \<open>The split of \<open>train_model\<close>\<close>

text \<open>
  C6. Over a dataset of length \<open>n\<close> (below \<open>2^48\<close>, so that the double-precision product
  is covered), with a positive batch size and a generator that returns a permutation,
  the setup of \<open>train_model\<close> hands its loaders a validation list of \<open>n div 10\<close> indices
  and a training list of the other \<open>n - n div 10\<close>; the two are disjoint and together
  hold every index of \<open>0..n-1\<close> exactly once. (Over an empty dataset the same split is
  drawn, and the training loader then refuses it.)
\<close>

theorem split_sizes_and_cover:
  assumes init: "CAMELSDataset_init (astype_f32 T) data (DATA_DIR cfg) (SUITE cfg)
                   (DATASET_TYPE cfg) = Inr ds"
    and n: "CAMELSDataset_len ds < 2 ^ 48"
    and perm: "is_permutation (fst (randperm T (gen w) (CAMELSDataset_len ds)))
                 (CAMELSDataset_len ds)"
    and bs: "0 < BATCH_SIZE cfg"
  shows "\<exists>tr va.
      split_of (fst (train_setup T cfg data w)) =
        (if CAMELSDataset_len ds = 0 then Inl (Setup, ValueError) else Inr (tr, va))
      \<and> length va = CAMELSDataset_len ds div 10
      \<and> length tr = CAMELSDataset_len ds - CAMELSDataset_len ds div 10
      \<and> set tr \<inter> set va = {} \<and> distinct (tr @ va)
      \<and> set (tr @ va) = {0..<CAMELSDataset_len ds}"
proof -
  let ?n = "CAMELSDataset_len ds"
  from random_split_sizes_and_cover [OF n perm] obtain tr va g' where
    rs: "random_split T ?n (?n - int_of_times_tenth ?n) (int_of_times_tenth ?n) (gen w)
           = (Inr (tr, va), g')" and
    lv: "length va = ?n div 10" and lt: "length tr = ?n - ?n div 10" and
    dj: "set tr \<inter> set va = {}" and di: "distinct (tr @ va)" and
    co: "set (tr @ va) = {0..<?n}"
    by blast
  have e: "(tr = []) = (?n = 0)" using lt by auto
  have "split_of (fst (train_setup T cfg data w)) =
      (if ?n = 0 then Inl (Setup, ValueError) else Inr (tr, va))"
    using bs by (simp add: train_setup_split init rs DataLoader_def e)
  with lv lt dj di co show ?thesis by blast
qed

theorem split_sizes_and_cover_witness:
  "\<exists>tr va.
      split_of (fst (train_setup (demo_torch real) demo_cfg (demo_data 100 0) empty_world))
        = Inr (tr, va)
      \<and> length va = 10 \<and> length tr = 90
      \<and> set tr \<inter> set va = {} \<and> distinct (tr @ va) \<and> set (tr @ va) = {0..<100}"
proof -
  have l: "CAMELSDataset_len (demo_dataset 100 0) = 100"
    by (simp add: CAMELSDataset_len_def demo_dataset_def)
  have p: "is_permutation (fst (randperm (demo_torch real) (gen empty_world)
             (CAMELSDataset_len (demo_dataset 100 0)))) (CAMELSDataset_len (demo_dataset 100 0))"
    by (simp add: is_permutation_def demo_torch_def)
  have n: "CAMELSDataset_len (demo_dataset 100 0) < 2 ^ 48" by (simp add: l)
  have b: "0 < BATCH_SIZE demo_cfg" by (simp add: demo_SUITE)
  from split_sizes_and_cover [OF demo_data_init n p b] show ?thesis by (simp add: l)
qed

section \<open>The final checkpoint\<close>

lemma path_join_relative:
  "b \<noteq> [] \<Longrightarrow> hd b \<noteq> CHR ''/'' \<Longrightarrow>
     path_join a b = (if a = [] \<or> last a = CHR ''/'' then a else a @ ''/'') @ b"
  by (simp add: path_join_def)

lemma paths_differ: "best_model_path cfg \<noteq> model_path cfg"
proof -
  obtain r where r: "MODEL_NAME cfg = CHR ''u'' # r" by (simp add: MODEL_NAME_def)
  have a: "model_path cfg =
      (if WEIGHTS_DIR cfg = [] \<or> last (WEIGHTS_DIR cfg) = CHR ''/'' then WEIGHTS_DIR cfg
       else WEIGHTS_DIR cfg @ ''/'') @ MODEL_NAME cfg"
    unfolding model_path_def by (rule path_join_relative) (simp_all add: r)
  have b: "best_model_path cfg =
      (if WEIGHTS_DIR cfg = [] \<or> last (WEIGHTS_DIR cfg) = CHR ''/'' then WEIGHTS_DIR cfg
       else WEIGHTS_DIR cfg @ ''/'') @ ''best_'' @ MODEL_NAME cfg"
    unfolding best_model_path_def by (rule path_join_relative) simp_all
  have "''best_'' @ MODEL_NAME cfg \<noteq> MODEL_NAME cfg"
  proof
    assume "''best_'' @ MODEL_NAME cfg = MODEL_NAME cfg"
    then have "length (''best_'' @ MODEL_NAME cfg) = length (MODEL_NAME cfg)" by simp
    then show False by simp
  qed
  then show ?thesis unfolding a b by simp
qed

lemma os_makedirs_cases:
  "os_makedirs d w =
     (case take 1 (io w) of
        [] \<Rightarrow> (Inr (), w)
      | Completes # _ \<Rightarrow> (Inr (), w\<lparr>io := tl (io w)\<rparr>)
      | KilledMidWrite # _ \<Rightarrow> (Inl ProcessKilled, w\<lparr>io := tl (io w)\<rparr>)
      | _ # _ \<Rightarrow> (Inl OSError, w\<lparr>io := tl (io w)\<rparr>))"
  by (simp add: os_makedirs_def split: list.splits io_outcome.splits)

lemma save_final_result:
  assumes "KilledMidWrite \<notin> set (take 2 (io w))"
  shows "\<exists>w'. save_final cfg m w = (Inr (), w') \<and>
           (\<forall>q. q \<noteq> model_path cfg \<longrightarrow> files w' q = files w q) \<and>
           (if list_all (\<lambda>x. x = Completes) (take 2 (io w))
            then files w' (model_path cfg) = Some (Checkpoint m)
            else Str ''The model was NOT saved.'' \<in> set (stdout w'))"
proof (cases "io w")
  case Nil
  then show ?thesis
    by (simp add: save_final_def Let_def os_makedirs_def torch_save_def write_file_def print_def)
next
  case (Cons o1 r1)
  show ?thesis
  proof (cases r1)
    case Nil
    with Cons assms show ?thesis
      by (cases o1)
         (simp_all add: save_final_def Let_def os_makedirs_def torch_save_def write_file_def
            print_def except_Exception_def report_save_error_def)
  next
    case (Cons o2 r2)
    with \<open>io w = o1 # r1\<close> assms show ?thesis
      by (cases o1; cases o2)
         (simp_all add: save_final_def Let_def os_makedirs_def torch_save_def write_file_def
            print_def except_Exception_def report_save_error_def)
  qed
qed

text \<open>
  C9. When the setup and all epochs of a run have gone through and the process is not
  killed during the final save, \<open>train_model\<close> returns normally, whatever the best-loss
  record is. The best-checkpoint file is what it was when the loop ended. If the two
  operations of the final save (\<open>os.makedirs\<close>, \<open>torch.save\<close>) complete, the final file
  holds the parameters of the last epoch; if one of them fails, the failure is caught
  and the report ending in "The model was NOT saved." is printed.
\<close>

theorem final_checkpoint_unconditional:
  assumes st: "train_setup T cfg data w0 = (Inr (ds, trl, vl, m0), w2)"
    and loop: "epoch_loop T cfg ds trl vl [0..<NUM_EPOCHS cfg]
                 \<lparr>model = m0, best_val_loss = PInf\<rparr> w2 = (Inr ls, w3)"
    and alive: "KilledMidWrite \<notin> set (take 2 (io w3))"
  shows "\<exists>w'. train_model T cfg data w0 = (Inr (), w') \<and>
          files w' (best_model_path cfg) = files w3 (best_model_path cfg) \<and>
          (if list_all (\<lambda>x. x = Completes) (take 2 (io w3))
           then files w' (model_path cfg) = Some (Checkpoint (model ls))
           else Str ''The model was NOT saved.'' \<in> set (stdout w'))"
proof -
  define w4 where "w4 = print (Str ''--- Proceeding to save model weights. ---'')
                           (print (Str ''--- Training Finished ---'') w3)"
  have w4: "io w4 = io w3" "files w4 = files w3" by (simp_all add: w4_def print_def)
  from alive have "KilledMidWrite \<notin> set (take 2 (io w4))" by (simp add: w4)
  from save_final_result [OF this, of cfg "model ls"] obtain w5 where
    sf: "save_final cfg (model ls) w4 = (Inr (), w5)" and
    fr: "\<forall>q. q \<noteq> model_path cfg \<longrightarrow> files w5 q = files w4 q" and
    sv: "if list_all (\<lambda>x. x = Completes) (take 2 (io w4))
         then files w5 (model_path cfg) = Some (Checkpoint (model ls))
         else Str ''The model was NOT saved.'' \<in> set (stdout w5)"
    by blast
  let ?w' = "print (Str ''W&B run finished.'')
               (print (Str ''Finalizing Weights & Biases run...'') w5)"
  have tm: "train_model T cfg data w0 = (Inr (), ?w')"
    by (simp add: train_model_def st loop Let_def w4_def [symmetric] sf)
  have fb: "files ?w' (best_model_path cfg) = files w3 (best_model_path cfg)"
    using fr paths_differ [of cfg] by (simp add: print_def w4)
  have "if list_all (\<lambda>x. x = Completes) (take 2 (io w3))
        then files ?w' (model_path cfg) = Some (Checkpoint (model ls))
        else Str ''The model was NOT saved.'' \<in> set (stdout ?w')"
    using sv by (simp add: print_def w4 split: if_splits)
  with tm fb show ?thesis by blast
qed

theorem final_checkpoint_unconditional_witness:
  "\<exists>w'. train_model (demo_torch real) demo_cfg (demo_data 10 0)
           (empty_world\<lparr>io := [Completes, Completes, Completes, FailsMidWrite]\<rparr>) = (Inr (), w') \<and>
        files w' (best_model_path demo_cfg) = Some (Checkpoint 3) \<and>
        Str ''The model was NOT saved.'' \<in> set (stdout w')"
  using final_checkpoint_unconditional [OF demo_setup_w2 demo_loop_rising]
  by (simp add: demo_best_path)

section \<open>Writing the best checkpoint\<close>










section \<open>Runs with a NaN loss or a failing directory creation\<close>









end
